theory Spec2Isabelle
  imports Main "HOL-Library.AList"
begin

section \<open>Data model of the room server\<close>

text \<open>
  The server keeps its whole state in process-wide JavaScript \<^verbatim>\<open>Map\<close>s
  (\<^verbatim>\<open>rooms\<close>, \<^verbatim>\<open>users\<close>, \<^verbatim>\<open>messages\<close>, \<^verbatim>\<open>activeCalls\<close>,
  \<^verbatim>\<open>screenShareRequests\<close>, \<^verbatim>\<open>userPlaylists\<close>, \<^verbatim>\<open>connectionMonitor\<close>) and in
  two variables closed over by every connection's handlers (\<^verbatim>\<open>currentUser\<close>,
  \<^verbatim>\<open>currentRoomCode\<close>).

  A \<^verbatim>\<open>Map\<close> iterates in insertion order, \<^verbatim>\<open>set\<close> on a present key keeps the
  key's position and \<^verbatim>\<open>set\<close> on an absent key appends; that is an association list
  with \<open>AList.update\<close>, \<open>AList.delete\<close> and \<open>map_of\<close>.  Clock readings
  (\<^verbatim>\<open>Date.now()\<close>, \<^verbatim>\<open>new Date()\<close>) are integers of milliseconds handed to each
  handler; random draws are handed in as well.  Payload fields have the types of the
  wire contract.  Where a handler takes its payload as an \<open>option\<close>, \<open>None\<close> is an event
  sent with no payload object (\<^verbatim>\<open>undefined\<close> or \<^verbatim>\<open>null\<close>): destructuring it throws
  inside the handler's \<^verbatim>\<open>try\<close>, and the \<^verbatim>\<open>catch\<close> only logs.  Fields that are written once and only ever sent back to clients
  (avatar, colour, country, rendered clock strings, file attachment fields, the shared
  video and its playback state) are left out: no handler modelled here reads them.
\<close>

type_synonym socket_id = string
type_synonym room_code = string
type_synonym ms = int

abbreviation Map_get :: "('k \<times> 'v) list \<Rightarrow> 'k \<Rightarrow> 'v option" where
  "Map_get m k \<equiv> map_of m k"

abbreviation Map_has :: "('k \<times> 'v) list \<Rightarrow> 'k \<Rightarrow> bool" where
  "Map_has m k \<equiv> map_of m k \<noteq> None"

abbreviation Map_set :: "'k \<Rightarrow> 'v \<Rightarrow> ('k \<times> 'v) list \<Rightarrow> ('k \<times> 'v) list" where
  "Map_set k v m \<equiv> AList.update k v m"

abbreviation Map_delete :: "'k \<Rightarrow> ('k \<times> 'v) list \<Rightarrow> ('k \<times> 'v) list" where
  "Map_delete k m \<equiv> AList.delete k m"

text \<open>The participant object \<^verbatim>\<open>currentUser\<close> (\<^verbatim>\<open>id\<close>, \<^verbatim>\<open>userName\<close>, \<^verbatim>\<open>isOwner\<close>).\<close>

record user =
  u_id :: socket_id
  userName :: string
  isOwner :: bool

text \<open>The screen-share grant held in \<^verbatim>\<open>room.screenSharing\<close>.\<close>

record grant =
  g_userName :: string
  g_socketId :: socket_id
  g_startedAt :: ms

record room =
  r_code :: room_code
  r_name :: string
  r_password :: "string option"
  r_owner :: socket_id
  r_users :: "(socket_id \<times> user) list"
  r_createdAt :: ms
  r_screenSharing :: "grant option"

text \<open>
  A chat message.  \<^verbatim>\<open>reactions\<close> is a plain object keyed by participant name,
  \<^verbatim>\<open>seenBy\<close> an array of names; \<^verbatim>\<open>editTime\<close> and \<^verbatim>\<open>deletedTime\<close> are absent
  until the message is edited or deleted.
\<close>

record message =
  m_id :: string
  m_userName :: string
  m_text :: string
  m_type :: string
  m_timestamp :: ms
  m_edited :: bool
  m_editTime :: "ms option"
  m_deleted :: bool
  m_deletedTime :: "ms option"
  m_reactions :: "(string \<times> string) list"
  m_seenBy :: "string list"

record callData =
  callerSocketId :: socket_id
  callerName :: string
  targetSocketId :: socket_id
  targetUserName :: string
  c_type :: string
  c_roomCode :: "room_code option"
  c_startTime :: ms
  c_status :: string

record share_request =
  requesterName :: string
  requesterSocketId :: socket_id
  q_roomCode :: room_code
  q_timestamp :: ms

record track =
  t_id :: string
  t_url :: string
  t_fileName :: string
  t_fileSize :: nat
  t_uploader :: string
  t_uploadTime :: ms

text \<open>
  A heartbeat record.  \<^verbatim>\<open>create-room\<close> and \<^verbatim>\<open>join-room\<close> rebuild the record by
  spreading the stored one; spreading a missing record leaves \<^verbatim>\<open>lastPing\<close> and
  \<^verbatim>\<open>connectedAt\<close> undefined, which is \<open>None\<close> here.
\<close>

record connection =
  k_userName :: string
  k_roomCode :: "room_code option"
  lastPing :: "ms option"
  connectedAt :: "ms option"

text \<open>
  One entry of \<^verbatim>\<open>io.sockets.sockets\<close> together with the two variables its handlers
  close over.  A handler runs only for a connection that is in this table; an event
  named for any other socket leaves the state as it is.
\<close>

record session =
  currentUser :: "user option"
  currentRoomCode :: "room_code option"

text \<open>
  The whole process state.  \<open>timers\<close> holds the pending \<^verbatim>\<open>setTimeout\<close> callbacks of
  the disconnect handler: the instant each one fires and the room code it closes over.
\<close>

record server =
  rooms :: "(room_code \<times> room) list"
  users :: "(socket_id \<times> (room_code \<times> user)) list"
  messages :: "(room_code \<times> message list) list"
  activeCalls :: "(socket_id \<times> callData) list"
  screenShareRequests :: "(socket_id \<times> share_request) list"
  userPlaylists :: "(room_code \<times> (string \<times> track list) list) list"
  connectionMonitor :: "(socket_id \<times> connection) list"
  sockets :: "(socket_id \<times> session) list"
  timers :: "(ms \<times> room_code) list"

definition boot :: server where
  "boot = \<lparr>rooms = [], users = [], messages = [], activeCalls = [],
     screenShareRequests = [], userPlaylists = [], connectionMonitor = [],
     sockets = [], timers = []\<rparr>"

text \<open>
  The guard \<^verbatim>\<open>if (!currentRoomCode || !currentUser) return;\<close> that opens most
  handlers: it passes when the connection exists, its user object is set and its room
  code is a non-empty string.
\<close>

definition joined :: "server \<Rightarrow> socket_id \<Rightarrow> (room_code \<times> user) option" where
  "joined s sid =
     (case Map_get (sockets s) sid of
        None \<Rightarrow> None
      | Some se \<Rightarrow>
          (case currentRoomCode se of
             None \<Rightarrow> None
           | Some rc \<Rightarrow>
               (case currentUser se of
                  None \<Rightarrow> None
                | Some cu \<Rightarrow> if rc = [] then None else Some (rc, cu))))"

section \<open>Connections\<close>

text \<open>\<^verbatim>\<open>io.on('connection')\<close>: a heartbeat record and fresh closure variables.\<close>

definition on_connection :: "socket_id \<Rightarrow> ms \<Rightarrow> server \<Rightarrow> server" where
  "on_connection sid now s =
     s\<lparr>connectionMonitor :=
         Map_set sid \<lparr>k_userName = ''Anonymous'', k_roomCode = None,
                       lastPing = Some now, connectedAt = Some now\<rparr> (connectionMonitor s),
       sockets := Map_set sid \<lparr>currentUser = None, currentRoomCode = None\<rparr> (sockets s)\<rparr>"

section \<open>Chat message store\<close>

text \<open>\<^verbatim>\<open>messages.get(currentRoomCode) || []\<close>.\<close>

definition roomMessages :: "server \<Rightarrow> room_code \<Rightarrow> message list" where
  "roomMessages s rc = (case Map_get (messages s) rc of None \<Rightarrow> [] | Some l \<Rightarrow> l)"

text \<open>\<^verbatim>\<open>Array.prototype.findIndex\<close>; \<open>None\<close> stands for the result \<^verbatim>\<open>-1\<close>.\<close>

fun findIndex :: "('a \<Rightarrow> bool) \<Rightarrow> 'a list \<Rightarrow> nat option" where
  "findIndex P [] = None"
| "findIndex P (x # xs) = (if P x then Some 0 else map_option Suc (findIndex P xs))"

text \<open>\<^verbatim>\<open>xs.slice(-n)\<close>: the last \<open>n\<close> elements.\<close>

definition slice_last :: "nat \<Rightarrow> 'a list \<Rightarrow> 'a list" where
  "slice_last n xs = drop (length xs - n) xs"

text \<open>
  \<^verbatim>\<open>socket.on('message')\<close>.  \<open>newId\<close> is the identifier the handler builds from the
  clock and a random suffix; \<open>mtext\<close> and \<open>mtype\<close> are the payload's \<^verbatim>\<open>text\<close> and
  \<^verbatim>\<open>type\<close> (an empty type defaults to \<^verbatim>\<open>'text'\<close>).
\<close>

definition on_message :: "socket_id \<Rightarrow> string \<Rightarrow> string \<Rightarrow> string \<Rightarrow> ms \<Rightarrow> server \<Rightarrow> server" where
  "on_message sid mtext mtype newId now s =
     (case joined s sid of
        None \<Rightarrow> s
      | Some (rc, cu) \<Rightarrow>
          (let msg = \<lparr>m_id = newId, m_userName = userName cu, m_text = mtext,
                      m_type = (if mtype = [] then ''text'' else mtype),
                      m_timestamp = now, m_edited = False, m_editTime = None,
                      m_deleted = False, m_deletedTime = None, m_reactions = [],
                      m_seenBy = [userName cu]\<rparr>;
               pushed = roomMessages s rc @ [msg]
           in if length pushed > 100
              then s\<lparr>messages := Map_set rc (slice_last 100 pushed) (messages s)\<rparr>
              else s\<lparr>messages := Map_set rc pushed (messages s)\<rparr>))"

text \<open>
  \<^verbatim>\<open>socket.on('edit-message')\<close> and \<^verbatim>\<open>socket.on('delete-message')\<close>.  The array
  found in the map is mutated in place, so the map keeps pointing at the changed log;
  when the room has no log the lookup runs on a fresh empty array and finds nothing.
\<close>

definition on_edit_message :: "socket_id \<Rightarrow> string \<Rightarrow> string \<Rightarrow> ms \<Rightarrow> server \<Rightarrow> server" where
  "on_edit_message sid messageId newText now s =
     (case joined s sid of
        None \<Rightarrow> s
      | Some (rc, cu) \<Rightarrow>
          (let log = roomMessages s rc in
           case findIndex (\<lambda>msg. m_id msg = messageId) log of
             None \<Rightarrow> s
           | Some i \<Rightarrow>
               if m_userName (log ! i) = userName cu
               then s\<lparr>messages :=
                        Map_set rc (log[i := (log ! i)\<lparr>m_text := newText, m_edited := True,
                                                     m_editTime := Some now\<rparr>])
                          (messages s)\<rparr>
               else s))"

definition on_delete_message :: "socket_id \<Rightarrow> string \<Rightarrow> ms \<Rightarrow> server \<Rightarrow> server" where
  "on_delete_message sid messageId now s =
     (case joined s sid of
        None \<Rightarrow> s
      | Some (rc, cu) \<Rightarrow>
          (let log = roomMessages s rc in
           case findIndex (\<lambda>msg. m_id msg = messageId) log of
             None \<Rightarrow> s
           | Some i \<Rightarrow>
               if m_userName (log ! i) = userName cu
               then s\<lparr>messages :=
                        Map_set rc (log[i := (log ! i)\<lparr>m_deleted := True,
                                                     m_deletedTime := Some now\<rparr>])
                          (messages s)\<rparr>
               else s))"

text \<open>
  The reaction object is a plain object \<^verbatim>\<open>{}\<close>; the association list holds its own
  properties.  \<^verbatim>\<open>reactions[name] === reaction\<close> holds exactly when the own property
  \<open>name\<close> is the submitted string: a name that is no own property reads as whatever
  \<^verbatim>\<open>Object.prototype\<close> provides, which is never a string.  Then
  \<^verbatim>\<open>delete reactions[name]\<close> removes the own property.  Otherwise
  \<^verbatim>\<open>reactions[name] = reaction\<close> writes the own property, except under the name
  \<^verbatim>\<open>__proto__\<close> when it is no own property: there the write reaches the accessor
  inherited from \<^verbatim>\<open>Object.prototype\<close>, whose setter ignores a string, and the object
  stays as it is.  The list is read through \<open>map_of\<close> only; its order is not meant to be
  the enumeration order of the object.
\<close>

definition toggle_reaction :: "string \<Rightarrow> string \<Rightarrow> (string \<times> string) list \<Rightarrow> (string \<times> string) list" where
  "toggle_reaction name reaction rs =
     (if Map_get rs name = Some reaction then Map_delete name rs
      else if name = ''__proto__'' \<and> \<not> Map_has rs name then rs
      else Map_set name reaction rs)"

text \<open>
  \<^verbatim>\<open>socket.on('message-reaction')\<close>.  The payload, when there is one, is the pair of
  its \<^verbatim>\<open>messageId\<close> and \<^verbatim>\<open>reaction\<close>.
\<close>

definition on_message_reaction :: "socket_id \<Rightarrow> (string \<times> string) option \<Rightarrow> server \<Rightarrow> server" where
  "on_message_reaction sid data s =
     (case data of
        None \<Rightarrow> s
      | Some (messageId, reaction) \<Rightarrow>
     (case joined s sid of
        None \<Rightarrow> s
      | Some (rc, cu) \<Rightarrow>
          (let log = roomMessages s rc in
           case findIndex (\<lambda>msg. m_id msg = messageId) log of
             None \<Rightarrow> s
           | Some i \<Rightarrow>
               s\<lparr>messages :=
                   Map_set rc (log[i := (log ! i)\<lparr>m_reactions :=
                                  toggle_reaction (userName cu) reaction (m_reactions (log ! i))\<rparr>])
                     (messages s)\<rparr>)))"

text \<open>The message a given identifier denotes in a room: the first one carrying it.\<close>

definition message_of :: "server \<Rightarrow> room_code \<Rightarrow> string \<Rightarrow> message option" where
  "message_of s rc messageId = find (\<lambda>msg. m_id msg = messageId) (roomMessages s rc)"

section \<open>Rooms and presence\<close>

text \<open>
  \<^verbatim>\<open>do { roomCode = generateRoomCode(); } while (rooms.has(roomCode));\<close>
  The random generator is a source of draws, consumed one per iteration.  The loop has
  no bound of its own: it ends at the first draw that is not a key of \<^verbatim>\<open>rooms\<close>, and
  \<open>None\<close> says that none of the draws supplied ended it.
\<close>

fun pick_code :: "(room_code \<times> room) list \<Rightarrow> room_code list \<Rightarrow> room_code option" where
  "pick_code rs [] = None"
| "pick_code rs (c # cs) = (if Map_has rs c then pick_code rs cs else Some c)"

text \<open>
  \<^verbatim>\<open>{...connectionMonitor.get(socket.id), userName: userName, roomCode: roomCode}\<close>
\<close>

definition monitor_joined :: "socket_id \<Rightarrow> string \<Rightarrow> room_code \<Rightarrow> (socket_id \<times> connection) list \<Rightarrow> (socket_id \<times> connection) list" where
  "monitor_joined sid uname rc cm =
     Map_set sid
       (case Map_get cm sid of
          None \<Rightarrow> \<lparr>k_userName = uname, k_roomCode = Some rc, lastPing = None, connectedAt = None\<rparr>
        | Some c \<Rightarrow> c\<lparr>k_userName := uname, k_roomCode := Some rc\<rparr>)
       cm"

text \<open>
  \<^verbatim>\<open>socket.on('create-room')\<close>.  \<open>draws\<close> are the generator's successive results.
  The result is \<open>None\<close> when the code loop does not end on them.
\<close>

definition on_create_room :: "socket_id \<Rightarrow> string \<Rightarrow> string \<Rightarrow> string option \<Rightarrow> room_code list \<Rightarrow> ms \<Rightarrow> server \<Rightarrow> server option" where
  "on_create_room sid uname roomName password draws now s =
     (if \<not> Map_has (sockets s) sid then Some s else
      case pick_code (rooms s) draws of
        None \<Rightarrow> None
      | Some roomCode \<Rightarrow>
          (let cu = \<lparr>u_id = sid, userName = uname, isOwner = True\<rparr>;
               room = \<lparr>r_code = roomCode, r_name = roomName,
                       r_password = (if password = Some [] then None else password),
                       r_owner = sid, r_users = [(sid, cu)], r_createdAt = now,
                       r_screenSharing = None\<rparr>
           in Some (s\<lparr>rooms := Map_set roomCode room (rooms s),
                      users := Map_set sid (roomCode, cu) (users s),
                      sockets := Map_set sid \<lparr>currentUser = Some cu, currentRoomCode = Some roomCode\<rparr> (sockets s),
                      connectionMonitor := monitor_joined sid uname roomCode (connectionMonitor s)\<rparr>)))"

text \<open>
  \<^verbatim>\<open>socket.on('join-room')\<close>.  The room is looked up under the upper-cased code, while
  \<^verbatim>\<open>currentRoomCode\<close> and the \<^verbatim>\<open>users\<close> mirror keep the code as the client sent it.
  An unknown code or a wrong password only sends an error to the caller.
  \<^verbatim>\<open>String.prototype.toUpperCase\<close> follows the Unicode case tables, which are no part
  of the server: the handler takes it as its first argument.
\<close>

definition on_join_room :: "(string \<Rightarrow> string) \<Rightarrow> socket_id \<Rightarrow> room_code \<Rightarrow> string \<Rightarrow> string option \<Rightarrow> server \<Rightarrow> server" where
  "on_join_room toUpperCase sid roomCode uname password s =
     (if \<not> Map_has (sockets s) sid then s else
      case Map_get (rooms s) (toUpperCase roomCode) of
        None \<Rightarrow> s
      | Some room \<Rightarrow>
          if r_password room \<noteq> None \<and> r_password room \<noteq> Some [] \<and> r_password room \<noteq> password
          then s
          else
            (let cu = \<lparr>u_id = sid, userName = uname, isOwner = (r_owner room = sid)\<rparr>
             in s\<lparr>rooms := Map_set (toUpperCase roomCode)
                               (room\<lparr>r_users := Map_set sid cu (r_users room)\<rparr>) (rooms s),
                   users := Map_set sid (roomCode, cu) (users s),
                   sockets := Map_set sid \<lparr>currentUser = Some cu, currentRoomCode = Some roomCode\<rparr> (sockets s),
                   connectionMonitor := monitor_joined sid uname roomCode (connectionMonitor s)\<rparr>))"

text \<open>
  What \<^verbatim>\<open>String.prototype.toUpperCase\<close> does to a string of ASCII characters, which
  is all that the scenarios below hand to it.
\<close>

definition ascii_toUpperCase :: "string \<Rightarrow> string" where
  "ascii_toUpperCase = map (\<lambda>c. let n = (of_char c :: nat) in
                                  if 97 \<le> n \<and> n \<le> 122 then char_of (n - 32) else c)"

section \<open>Screen-share permission workflow\<close>

text \<open>
  \<^verbatim>\<open>map.forEach((v, k) => { if (P(v)) found = k; })\<close> starting from \<^verbatim>\<open>null\<close>: the
  key of the last entry that satisfies the test.
\<close>

definition last_key :: "('v \<Rightarrow> bool) \<Rightarrow> ('k \<times> 'v) list \<Rightarrow> 'k option" where
  "last_key P m = foldl (\<lambda>found (k, v). if P v then Some k else found) None m"

definition on_request_screen_share :: "socket_id \<Rightarrow> ms \<Rightarrow> server \<Rightarrow> server" where
  "on_request_screen_share sid now s =
     (case joined s sid of
        None \<Rightarrow> s
      | Some (rc, cu) \<Rightarrow>
          (case Map_get (rooms s) rc of
             None \<Rightarrow> s
           | Some room \<Rightarrow>
               (case last_key isOwner (r_users room) of
                  None \<Rightarrow> s
                | Some ownerSocketId \<Rightarrow>
                    if ownerSocketId = [] then s
                    else s\<lparr>screenShareRequests :=
                             Map_set sid \<lparr>requesterName = userName cu, requesterSocketId = sid,
                                           q_roomCode = rc, q_timestamp = now\<rparr>
                               (screenShareRequests s)\<rparr>)))"

text \<open>
  \<^verbatim>\<open>socket.on('approve-screen-share')\<close>.  With a pending request but no room under the
  caller's \<^verbatim>\<open>currentRoomCode\<close>, the assignment to \<^verbatim>\<open>room.screenSharing\<close> throws, the
  handler's \<^verbatim>\<open>catch\<close> logs it and the request stays pending.
\<close>

definition on_approve_screen_share :: "socket_id \<Rightarrow> socket_id \<Rightarrow> ms \<Rightarrow> server \<Rightarrow> server" where
  "on_approve_screen_share sid requester now s =
     (case joined s sid of
        None \<Rightarrow> s
      | Some (rc, cu) \<Rightarrow>
          if \<not> isOwner cu then s
          else
            (case Map_get (screenShareRequests s) requester of
               None \<Rightarrow> s
             | Some request \<Rightarrow>
                 (case Map_get (rooms s) rc of
                    None \<Rightarrow> s
                  | Some room \<Rightarrow>
                      s\<lparr>rooms := Map_set rc
                                    (room\<lparr>r_screenSharing :=
                                       Some \<lparr>g_userName = requesterName request,
                                             g_socketId = requester, g_startedAt = now\<rparr>\<rparr>)
                                    (rooms s),
                        screenShareRequests := Map_delete requester (screenShareRequests s)\<rparr>)))"

definition on_reject_screen_share :: "socket_id \<Rightarrow> socket_id \<Rightarrow> server \<Rightarrow> server" where
  "on_reject_screen_share sid requester s =
     (case joined s sid of
        None \<Rightarrow> s
      | Some (rc, cu) \<Rightarrow>
          if \<not> isOwner cu then s
          else
            (case Map_get (screenShareRequests s) requester of
               None \<Rightarrow> s
             | Some request \<Rightarrow>
                 s\<lparr>screenShareRequests := Map_delete requester (screenShareRequests s)\<rparr>))"

text \<open>The screen-share state of the process: the pending requests and every room's grant.\<close>

definition screen_share_state :: "server \<Rightarrow> (socket_id \<times> share_request) list \<times> (room_code \<times> grant option) list" where
  "screen_share_state s =
     (screenShareRequests s, map (\<lambda>(rc, room). (rc, r_screenSharing room)) (rooms s))"

section \<open>Playlist aggregator\<close>

text \<open>
  \<^verbatim>\<open>Math.round((usersWithMusic / totalUsers) * 100)\<close> on two array lengths, in the
  double-precision arithmetic of JavaScript numbers.  A positive double is a pair
  \<open>(m, e)\<close> standing for \<open>m * 2 ^ e\<close>, with \<open>m\<close> of at most 53 bits.  The
  quotient of two positive integers and the product with 100 are each the exact result
  rounded to 53 significant bits, ties to the even mantissa (the lengths are far from
  the range where a double overflows or loses precision near zero).  \<^verbatim>\<open>Math.round\<close>
  then takes the integer nearest to the double it is given, a half going up.  Over zero
  the quotient is \<^verbatim>\<open>Infinity\<close> for a positive count and \<^verbatim>\<open>NaN\<close> for zero.
\<close>

datatype jsnum = Num nat | Infinity | NaN

text \<open>The number of binary digits of a natural number.\<close>

fun bit_length :: "nat \<Rightarrow> nat" where
  "bit_length n = (if n = 0 then 0 else Suc (bit_length (n div 2)))"

declare bit_length.simps [simp del]

text \<open>The integer nearest to \<open>n / d\<close>, a tie going to the even one.\<close>

definition round_half_even :: "nat \<Rightarrow> nat \<Rightarrow> nat" where
  "round_half_even n d =
     (let q = n div d; r = n mod d
      in if 2 * r < d then q
         else if d < 2 * r then q + 1
         else if even q then q else q + 1)"

text \<open>
  \<open>a / b\<close> for positive integers: the quotient is scaled by the power of two that
  puts it between \<open>2 ^ 52\<close> and \<open>2 ^ 53\<close>, and rounded there.
\<close>

definition double_div :: "nat \<Rightarrow> nat \<Rightarrow> nat \<times> int" where
  "double_div a b =
     (let s0 = 53 + int (bit_length b) - int (bit_length a);
          s = (if 2 ^ 53 * (b * 2 ^ nat (- s0)) \<le> a * 2 ^ nat s0 then s0 - 1 else s0)
      in (round_half_even (a * 2 ^ nat s) (b * 2 ^ nat (- s)), - s))"

text \<open>\<open>x * 100\<close>: the exact product has up to 60 bits and is rounded back to 53.\<close>

fun double_times_100 :: "nat \<times> int \<Rightarrow> nat \<times> int" where
  "double_times_100 (m, e) =
     (let t = bit_length (100 * m) - 53
      in (round_half_even (100 * m) (2 ^ t), e + int t))"

text \<open>\<^verbatim>\<open>Math.round\<close>: the floor of the double plus one half, taken exactly.\<close>

fun Math_round :: "nat \<times> int \<Rightarrow> nat" where
  "Math_round (m, e) =
     (if 0 \<le> e then m * 2 ^ nat e
      else (2 * m + 2 ^ nat (- e)) div 2 ^ (nat (- e) + 1))"

definition progress_of :: "nat \<Rightarrow> nat \<Rightarrow> jsnum" where
  "progress_of usersWithMusic totalUsers =
     (if totalUsers = 0 then (if usersWithMusic = 0 then NaN else Infinity)
      else if usersWithMusic = 0 then Num 0
      else Num (Math_round (double_times_100 (double_div usersWithMusic totalUsers))))"

text \<open>The \<^verbatim>\<open>playlist-updated\<close> broadcast.\<close>

record playlist_updated =
  p_users :: "(string \<times> track list) list"
  uploadProgress :: jsnum

text \<open>
  \<^verbatim>\<open>socket.on('upload-playlist-music')\<close>.  The payload, when there is one, is the
  triple of its \<^verbatim>\<open>musicData\<close>, \<^verbatim>\<open>fileName\<close> and \<^verbatim>\<open>fileSize\<close>; it is
  destructured after the room guard.  The track is pushed before the room is
  dereferenced, so with no room under \<^verbatim>\<open>currentRoomCode\<close> the push stays and the
  exception only suppresses the broadcast.
\<close>

definition on_upload_playlist_music :: "socket_id \<Rightarrow> (string \<times> string \<times> nat) option \<Rightarrow> string \<Rightarrow> ms \<Rightarrow> server \<Rightarrow> server \<times> playlist_updated option" where
  "on_upload_playlist_music sid data newId now s =
     (case joined s sid of
        None \<Rightarrow> (s, None)
      | Some (rc, cu) \<Rightarrow>
     (case data of
        None \<Rightarrow> (s, None)
      | Some (musicData, fileName, fileSize) \<Rightarrow>
          (let roomPlaylist0 = (case Map_get (userPlaylists s) rc of None \<Rightarrow> [] | Some pl \<Rightarrow> pl);
               userMusic = (case Map_get roomPlaylist0 (userName cu) of None \<Rightarrow> [] | Some l \<Rightarrow> l);
               roomPlaylist = Map_set (userName cu)
                  (userMusic @ [\<lparr>t_id = newId, t_url = musicData, t_fileName = fileName,
                                 t_fileSize = fileSize, t_uploader = userName cu,
                                 t_uploadTime = now\<rparr>]) roomPlaylist0;
               s' = s\<lparr>userPlaylists := Map_set rc roomPlaylist (userPlaylists s)\<rparr>
           in case Map_get (rooms s) rc of
                None \<Rightarrow> (s', None)
              | Some room \<Rightarrow>
                  (let totalUsers = length (r_users room);
                       usersWithMusic = length (map fst roomPlaylist)
                   in (s', Some \<lparr>p_users = roomPlaylist,
                                 uploadProgress = progress_of usersWithMusic totalUsers\<rparr>)))))"

text \<open>
  \<^verbatim>\<open>socket.on('confirm-delete-music')\<close>.  The payload, when there is one, is its
  \<^verbatim>\<open>requesterName\<close>, which only addresses the notice to the requester; it is
  destructured first.  \<open>keys.filter(user => get(user).length > 0)\<close> looks every key up
  again; with the distinct keys of a \<^verbatim>\<open>Map\<close> that is its own entry.
\<close>

definition on_confirm_delete_music :: "socket_id \<Rightarrow> string option \<Rightarrow> server \<Rightarrow> server \<times> playlist_updated option" where
  "on_confirm_delete_music sid data s =
     (case data of
        None \<Rightarrow> (s, None)
      | Some requester \<Rightarrow>
     (case joined s sid of
        None \<Rightarrow> (s, None)
      | Some (rc, cu) \<Rightarrow>
          (case Map_get (userPlaylists s) rc of
             None \<Rightarrow> (s, None)
           | Some roomPlaylist0 \<Rightarrow>
               if \<not> Map_has roomPlaylist0 (userName cu) then (s, None)
               else
                 (let roomPlaylist = Map_set (userName cu) [] roomPlaylist0;
                      s' = s\<lparr>userPlaylists := Map_set rc roomPlaylist (userPlaylists s)\<rparr>
                  in case Map_get (rooms s) rc of
                       None \<Rightarrow> (s', None)
                     | Some room \<Rightarrow>
                         (let totalUsers = length (r_users room);
                              usersWithMusic =
                                length (filter (\<lambda>u. case Map_get roomPlaylist u of
                                                       None \<Rightarrow> False | Some l \<Rightarrow> length l > 0)
                                          (map fst roomPlaylist))
                          in (s', Some \<lparr>p_users = roomPlaylist,
                                        uploadProgress = progress_of usersWithMusic totalUsers\<rparr>))))))"

section \<open>Call signalling relay\<close>

text \<open>
  \<^verbatim>\<open>socket.on('start-call')\<close>.  The payload, when there is one, is the triple of its
  \<^verbatim>\<open>targetUserName\<close>, \<^verbatim>\<open>type\<close> and \<^verbatim>\<open>callerName\<close> (the offer is only
  relayed).  The handler has no room guard: the callee is the last
  entry of \<^verbatim>\<open>users\<close> whose name is the target name and whose room code is the
  caller's \<^verbatim>\<open>currentRoomCode\<close>.  One call object is stored under both identities,
  whatever either key held before.
\<close>

definition resolve_target :: "server \<Rightarrow> room_code option \<Rightarrow> string \<Rightarrow> socket_id option" where
  "resolve_target s cur target =
     (case last_key (\<lambda>(rc, u). userName u = target \<and> Some rc = cur) (users s) of
        None \<Rightarrow> None
      | Some k \<Rightarrow> if k = [] then None else Some k)"

definition on_start_call :: "socket_id \<Rightarrow> (string \<times> string \<times> string) option \<Rightarrow> ms \<Rightarrow> server \<Rightarrow> server" where
  "on_start_call sid data now s =
     (case Map_get (sockets s) sid of
        None \<Rightarrow> s
      | Some se \<Rightarrow>
     (case data of
        None \<Rightarrow> s
      | Some (target, kind, cname) \<Rightarrow>
          (case resolve_target s (currentRoomCode se) target of
             None \<Rightarrow> s
           | Some tid \<Rightarrow>
               (let cd = \<lparr>callerSocketId = sid, callerName = cname, targetSocketId = tid,
                          targetUserName = target, c_type = kind,
                          c_roomCode = currentRoomCode se, c_startTime = now,
                          c_status = ''ringing''\<rparr>
                in s\<lparr>activeCalls := Map_set tid cd (Map_set sid cd (activeCalls s))\<rparr>))))"

text \<open>
  \<^verbatim>\<open>socket.on('reject-call')\<close>.  The handler first destructures the payload for its
  \<^verbatim>\<open>callerSocketId\<close>, which may be absent from the payload object and only addresses
  the notice.
\<close>

definition on_reject_call :: "socket_id \<Rightarrow> socket_id option option \<Rightarrow> server \<Rightarrow> server" where
  "on_reject_call sid data s =
     (if \<not> Map_has (sockets s) sid then s else
      case data of
        None \<Rightarrow> s
      | Some caller \<Rightarrow>
     (case Map_get (activeCalls s) sid of
        None \<Rightarrow> s
      | Some cd \<Rightarrow>
          s\<lparr>activeCalls := Map_delete (targetSocketId cd)
                              (Map_delete (callerSocketId cd) (activeCalls s))\<rparr>))"

text \<open>
  \<^verbatim>\<open>socket.on('end-call')\<close>.  The handler first destructures the payload for its
  \<^verbatim>\<open>targetSocketId\<close>, which may be absent from the payload object.  Without a record
  of its own the sender's payload decides: a non-empty \<^verbatim>\<open>targetSocketId\<close> has that
  key deleted as well.
\<close>

definition on_end_call :: "socket_id \<Rightarrow> socket_id option option \<Rightarrow> server \<Rightarrow> server" where
  "on_end_call sid data s =
     (if \<not> Map_has (sockets s) sid then s else
      case data of
        None \<Rightarrow> s
      | Some target \<Rightarrow>
     (case Map_get (activeCalls s) sid of
        Some cd \<Rightarrow>
          s\<lparr>activeCalls := Map_delete (targetSocketId cd)
                              (Map_delete (callerSocketId cd) (activeCalls s))\<rparr>
      | None \<Rightarrow>
          (case target of
             None \<Rightarrow> s
           | Some tid \<Rightarrow>
               if tid = [] then s
               else s\<lparr>activeCalls := Map_delete tid (Map_delete sid (activeCalls s))\<rparr>)))"

section \<open>Disconnect and the empty-room grace timer\<close>

text \<open>
  \<^verbatim>\<open>socket.on('disconnect')\<close>, in the order of the source: the heartbeat record, the
  call index, the screen-share grant, then membership.  When the room is left with no
  member a timer is set for 600000 ms later.  At the end the socket is gone from
  \<^verbatim>\<open>io.sockets.sockets\<close> and its ping interval is cleared.
\<close>

definition drop_call :: "socket_id \<Rightarrow> (socket_id \<times> callData) list \<Rightarrow> (socket_id \<times> callData) list" where
  "drop_call sid calls =
     (case Map_get calls sid of
        None \<Rightarrow> calls
      | Some cd \<Rightarrow>
          (let otherPartyId = (if callerSocketId cd = sid then targetSocketId cd
                               else callerSocketId cd)
           in Map_delete sid (if otherPartyId = [] then calls
                              else Map_delete otherPartyId calls)))"

definition drop_grant :: "socket_id \<Rightarrow> room_code option \<Rightarrow> (room_code \<times> room) list \<Rightarrow> (room_code \<times> room) list" where
  "drop_grant sid cur rs =
     (case cur of
        None \<Rightarrow> rs
      | Some rc \<Rightarrow>
          if rc = [] then rs
          else
            (case Map_get rs rc of
               None \<Rightarrow> rs
             | Some room \<Rightarrow>
                 (case r_screenSharing room of
                    None \<Rightarrow> rs
                  | Some g \<Rightarrow>
                      if g_socketId g = sid
                      then Map_set rc (room\<lparr>r_screenSharing := None\<rparr>) rs
                      else rs)))"

definition GRACE :: ms where
  "GRACE = 600000"

definition on_disconnect :: "socket_id \<Rightarrow> ms \<Rightarrow> server \<Rightarrow> server" where
  "on_disconnect sid now s =
     (case Map_get (sockets s) sid of
        None \<Rightarrow> s
      | Some se \<Rightarrow>
          (let s1 = s\<lparr>connectionMonitor := Map_delete sid (connectionMonitor s),
                       activeCalls := drop_call sid (activeCalls s),
                       rooms := drop_grant sid (currentRoomCode se) (rooms s),
                       sockets := Map_delete sid (sockets s)\<rparr>
           in case joined s sid of
                None \<Rightarrow> s1
              | Some (rc, cu) \<Rightarrow>
                  (case Map_get (rooms s1) rc of
                     None \<Rightarrow> s1
                   | Some room \<Rightarrow>
                       (let left = Map_delete sid (r_users room)
                        in s1\<lparr>rooms := Map_set rc (room\<lparr>r_users := left\<rparr>) (rooms s1),
                               users := Map_delete sid (users s1),
                               screenShareRequests := Map_delete sid (screenShareRequests s1),
                               timers := (if length left = 0 then timers s1 @ [(now + GRACE, rc)]
                                          else timers s1)\<rparr>))))"

text \<open>
  The timer's callback:
  \<^verbatim>\<open>if (rooms.get(currentRoomCode)?.users.size === 0) { rooms.delete(..); messages.delete(..); ... }\<close>
  One copy of the server also deletes the room's playlists there, the other does not;
  \<open>with_playlists\<close> selects between them.
\<close>

definition grace_timeout :: "bool \<Rightarrow> room_code \<Rightarrow> server \<Rightarrow> server" where
  "grace_timeout with_playlists rc s =
     (case Map_get (rooms s) rc of
        None \<Rightarrow> s
      | Some room \<Rightarrow>
          if length (r_users room) = 0
          then s\<lparr>rooms := Map_delete rc (rooms s),
                 messages := Map_delete rc (messages s),
                 userPlaylists := (if with_playlists then Map_delete rc (userPlaylists s)
                                   else userPlaylists s)\<rparr>
          else s)"

text \<open>
  The event loop reaching the instant \<open>now\<close>: every pending callback whose time has come
  runs, in the order the timers were set, and leaves the timer table.
\<close>

definition run_timers :: "bool \<Rightarrow> ms \<Rightarrow> server \<Rightarrow> server" where
  "run_timers with_playlists now s =
     fold (\<lambda>(at, rc). grace_timeout with_playlists rc)
          (filter (\<lambda>(at, rc). at \<le> now) (timers s))
          (s\<lparr>timers := filter (\<lambda>(at, rc). \<not> at \<le> now) (timers s)\<rparr>)"

section \<open>Connection liveness monitor\<close>

text \<open>
  The 10-second interval of every connection: while the socket is connected it emits a
  probe and stamps the heartbeat record itself.  \<^verbatim>\<open>socket.on('pong')\<close> stamps the
  record on the client's acknowledgment.
\<close>

definition stamp :: "socket_id \<Rightarrow> ms \<Rightarrow> (socket_id \<times> connection) list \<Rightarrow> (socket_id \<times> connection) list" where
  "stamp sid now cm =
     (case Map_get cm sid of
        None \<Rightarrow> cm
      | Some conn \<Rightarrow> Map_set sid (conn\<lparr>lastPing := Some now\<rparr>) cm)"

definition pingInterval :: "socket_id \<Rightarrow> ms \<Rightarrow> server \<Rightarrow> server" where
  "pingInterval sid now s =
     (if Map_has (sockets s) sid
      then s\<lparr>connectionMonitor := stamp sid now (connectionMonitor s)\<rparr>
      else s)"

definition on_pong :: "socket_id \<Rightarrow> ms \<Rightarrow> server \<Rightarrow> server" where
  "on_pong sid now s =
     (if Map_has (sockets s) sid
      then s\<lparr>connectionMonitor := stamp sid now (connectionMonitor s)\<rparr>
      else s)"

text \<open>
  One pass of \<^verbatim>\<open>startConnectionHealthCheck\<close>'s 20-second interval.  A record whose
  \<^verbatim>\<open>lastPing\<close> is undefined gives \<^verbatim>\<open>NaN > 40000\<close>, which is false.
  \<^verbatim>\<open>socket.disconnect(true)\<close> runs the socket's disconnect handler.
\<close>

definition stale :: "ms \<Rightarrow> connection \<Rightarrow> bool" where
  "stale now conn = (case lastPing conn of None \<Rightarrow> False | Some t \<Rightarrow> now - t > 40000)"

definition check_one :: "ms \<Rightarrow> socket_id \<Rightarrow> server \<Rightarrow> server" where
  "check_one now sid s =
     (case Map_get (connectionMonitor s) sid of
        None \<Rightarrow> s
      | Some conn \<Rightarrow>
          if stale now conn
          then (let s' = (if Map_has (sockets s) sid then on_disconnect sid now s else s)
                in s'\<lparr>connectionMonitor := Map_delete sid (connectionMonitor s')\<rparr>)
          else s)"

definition healthCheck :: "ms \<Rightarrow> server \<Rightarrow> server" where
  "healthCheck now s = fold (check_one now) (map fst (connectionMonitor s)) s"

section \<open>Periodic cleanup\<close>

text \<open>
  The 10-minute interval at the end of the second copy of the server: pending
  screen-share requests older than five minutes go, and so does every room that has no
  member and whose \<^verbatim>\<open>createdAt\<close> lies more than an hour back, with its message log.
\<close>

definition ONE_HOUR :: ms where
  "ONE_HOUR = 60 * 60 * 1000"

definition swept :: "ms \<Rightarrow> room \<Rightarrow> bool" where
  "swept now room = (length (r_users room) = 0 \<and> now - r_createdAt room > ONE_HOUR)"

definition cleanup :: "ms \<Rightarrow> server \<Rightarrow> server" where
  "cleanup now s =
     s\<lparr>screenShareRequests :=
         filter (\<lambda>(sid, request). \<not> now - q_timestamp request > 5 * 60 * 1000)
                (screenShareRequests s),
       rooms := filter (\<lambda>(rc, room). \<not> swept now room) (rooms s),
       messages := fold Map_delete
                     (map fst (filter (\<lambda>(rc, room). swept now room) (rooms s)))
                     (messages s)\<rparr>"

section \<open>Observations used in the statements\<close>



text \<open>
  A call index without half-calls: every entry sits under the key of its caller or of its
  callee, and both of these keys hold that same call.
\<close>

definition paired :: "(socket_id \<times> callData) list \<Rightarrow> bool" where
  "paired calls =
     list_all (\<lambda>(k, cd). (k = callerSocketId cd \<or> k = targetSocketId cd)
                 \<and> Map_get calls (callerSocketId cd) = Some cd
                 \<and> Map_get calls (targetSocketId cd) = Some cd) calls"

text \<open>
  The playlist of a room, the number of names in it that hold at least one track, and
  the number of current members of a room whose name holds at least one track.
\<close>

definition roomPlaylist :: "server \<Rightarrow> room_code \<Rightarrow> (string \<times> track list) list" where
  "roomPlaylist s rc = (case Map_get (userPlaylists s) rc of None \<Rightarrow> [] | Some pl \<Rightarrow> pl)"

definition names_with_tracks :: "(string \<times> track list) list \<Rightarrow> nat" where
  "names_with_tracks pl = length (filter (\<lambda>(name, music). music \<noteq> []) pl)"


text \<open>Whether the heartbeat record of a connection is overdue at a sweep.\<close>

definition stale_at :: "ms \<Rightarrow> server \<Rightarrow> socket_id \<Rightarrow> bool" where
  "stale_at now s sid =
     (case Map_get (connectionMonitor s) sid of None \<Rightarrow> False | Some conn \<Rightarrow> stale now conn)"

section \<open>Scenarios\<close>

text \<open>
  Runs of the handlers from the freshly booted process.  Ann (socket \<open>a\<close>) connects and
  creates the room \<open>AB12CD\<close>; Bob (\<open>b\<close>) and Cy (\<open>c\<close>) join it.
\<close>

definition st_ann :: server where
  "st_ann = the (on_create_room ''a'' ''Ann'' ''Den'' None [''AB12CD''] 1000
                  (on_connection ''a'' 0 boot))"

definition st_ann_bob :: server where
  "st_ann_bob = on_join_room ascii_toUpperCase ''b'' ''AB12CD'' ''Bob'' None
                  (on_connection ''b'' 2000 st_ann)"

definition st_trio :: server where
  "st_trio = on_join_room ascii_toUpperCase ''c'' ''AB12CD'' ''Cy'' None
               (on_connection ''c'' 3000 st_ann_bob)"

text \<open>Ann posts \<open>m1\<close> and Bob reacts to it.\<close>

definition st_chat :: server where
  "st_chat = on_message_reaction ''b'' (Some (''m1'', ''+1''))
               (on_message ''a'' ''hello'' [] ''m1'' 4000 st_ann_bob)"

text \<open>Ann rings Bob; then Cy rings Bob as well.\<close>

definition st_ringing :: server where
  "st_ringing = on_start_call ''a'' (Some (''Bob'', ''video'', ''Ann'')) 5000 st_trio"

definition st_overlap :: server where
  "st_overlap = on_start_call ''c'' (Some (''Bob'', ''audio'', ''Cy'')) 6000 st_ringing"

text \<open>
  A client that connects at 5 s and never acknowledges a probe: its 10-second interval
  runs at 15, 25, 35, 45 and 55 s, the monitor sweeps at 20 and 40 s.
\<close>

definition st_silent :: server where
  "st_silent =
     pingInterval ''a'' 55000 (pingInterval ''a'' 45000 (healthCheck 40000
       (pingInterval ''a'' 35000 (pingInterval ''a'' 25000 (healthCheck 20000
         (pingInterval ''a'' 15000 (on_connection ''a'' 5000 boot)))))))"

text \<open>
  Ann leaves her room alone at 5 s; Bob joins it at 100 s, posts \<open>m2\<close> and leaves at
  200 s.
\<close>

definition st_left :: server where
  "st_left = on_disconnect ''a'' 5000 st_ann"

definition st_back :: server where
  "st_back = on_message ''b'' ''anyone?'' [] ''m2'' 110000
               (on_join_room ascii_toUpperCase ''b'' ''AB12CD'' ''Bob'' None
                  (on_connection ''b'' 100000 st_left))"

definition st_gone :: server where
  "st_gone = on_disconnect ''b'' 200000 st_back"

text \<open>Ann keeps her room for 119 minutes and then disconnects.\<close>

definition st_late_leave :: server where
  "st_late_leave = on_disconnect ''a'' 7140000 st_ann"

text \<open>
  A second room \<open>ZZ99ZZ\<close>, created by Cy and joined by Bob, next to Ann's; Bob asks
  for the screen there.
\<close>

definition st_two_rooms :: server where
  "st_two_rooms =
     on_join_room ascii_toUpperCase ''b'' ''ZZ99ZZ'' ''Bob'' None (on_connection ''b'' 4000
       (the (on_create_room ''c'' ''Cy'' ''Loft'' None [''ZZ99ZZ''] 3000
              (on_connection ''c'' 2000 st_ann))))"

definition st_asked :: server where
  "st_asked = on_request_screen_share ''b'' 5000 st_two_rooms"


definition st_bob_cleared :: server where
  "st_bob_cleared =
     fst (on_confirm_delete_music ''b'' (Some ''Ann'')
       (fst (on_upload_playlist_music ''b'' (Some (''data2'', ''two.mp3'', 20)) ''t2'' 5000
          (fst (on_upload_playlist_music ''a'' (Some (''data1'', ''one.mp3'', 10)) ''t1'' 4000
                  st_ann_bob)))))"

section \<open>Facts about lists and association lists\<close>

lemma findIndex_None: "findIndex P xs = None \<longleftrightarrow> find P xs = None"
  by (induction xs) auto

lemma findIndex_Some:
  "findIndex P xs = Some i \<Longrightarrow> i < length xs \<and> find P xs = Some (xs ! i)"
  by (induction xs arbitrary: i) (auto split: if_splits)

lemma find_Some_findIndex:
  "find P xs = Some m \<Longrightarrow> \<exists>i. findIndex P xs = Some i \<and> i < length xs \<and> xs ! i = m"
  by (induction xs) (auto split: if_splits)

lemma find_update_hit:
  "findIndex P xs = Some i \<Longrightarrow> P y \<Longrightarrow> find P (xs[i := y]) = Some y"
  by (induction xs arbitrary: i) (auto split: if_splits)

lemma find_update_miss:
  "\<not> Q (xs ! i) \<Longrightarrow> \<not> Q y \<Longrightarrow> i < length xs \<Longrightarrow> find Q (xs[i := y]) = find Q xs"
  by (induction xs arbitrary: i) (auto simp: nth_Cons split: nat.splits)

lemma slice_last_snoc: "slice_last (Suc n) (xs @ [x]) = slice_last n xs @ [x]"
  by (simp add: slice_last_def)

lemma update_fresh: "map_of al k = None \<Longrightarrow> AList.update k v al = al @ [(k, v)]"
  by (induction al) (auto split: if_splits)

lemma set_update_subset:
  "(k', v') \<in> set (AList.update k v al) \<Longrightarrow> (k', v') = (k, v) \<or> (k', v') \<in> set al"
  by (induction al) (auto split: if_splits)


lemma map_of_filter_vals:
  "distinct (map fst al) \<Longrightarrow>
   map_of (filter (\<lambda>(k, v). P v) al) k =
     (case map_of al k of None \<Rightarrow> None | Some v \<Rightarrow> if P v then Some v else None)"
proof (induction al)
  case Nil
  then show ?case by simp
next
  case (Cons p al)
  obtain k' v' where p: "p = (k', v')" by (cases p)
  from Cons.prems p have notin: "k' \<notin> fst ` set al" and d: "distinct (map fst al)" by auto
  from notin have none: "map_of al k' = None" by (simp add: map_of_eq_None_iff)
  show ?case
  proof (cases "k = k'")
    case True
    with p none Cons.IH[OF d] show ?thesis by (simp split: option.splits)
  next
    case False
    with p Cons.IH[OF d] show ?thesis by simp
  qed
qed

lemma map_of_fold_delete:
  "map_of (fold Map_delete ks al) k = (if k \<in> set ks then None else map_of al k)"
  by (induction ks arbitrary: al) (auto simp: delete_conv')

lemma filtered_keys:
  "distinct (map fst rs) \<Longrightarrow>
   k \<in> set (map fst (filter (\<lambda>(rc, room). P room) rs)) \<longleftrightarrow>
     (\<exists>room. map_of rs k = Some room \<and> P room)"
  by (auto simp: image_iff)


section \<open>Facts about the chat store\<close>

lemma joined_messages_upd [simp]: "joined (s\<lparr>messages := ms\<rparr>) sid = joined s sid"
  by (simp add: joined_def)

lemma roomMessages_set:
  "roomMessages (s\<lparr>messages := Map_set rc l (messages s)\<rparr>) rc' =
     (if rc' = rc then l else roomMessages s rc')"
  by (simp add: roomMessages_def update_conv')

lemma roomMessages_on_message:
  assumes "joined s sid = Some (rc, cu)"
  shows "roomMessages (on_message sid mtext mtype newId now s) rc =
         slice_last 100 (roomMessages s rc @
           [\<lparr>m_id = newId, m_userName = userName cu, m_text = mtext,
             m_type = (if mtype = [] then ''text'' else mtype),
             m_timestamp = now, m_edited = False, m_editTime = None,
             m_deleted = False, m_deletedTime = None, m_reactions = [],
             m_seenBy = [userName cu]\<rparr>])"
  using assms
  by (simp add: on_message_def Let_def roomMessages_def update_conv' slice_last_def)

lemma on_edit_message_hit:
  assumes "joined s sid = Some (rc, cu)"
    and "findIndex (\<lambda>msg. m_id msg = messageId) (roomMessages s rc) = Some i"
    and "m_userName (roomMessages s rc ! i) = userName cu"
  shows "on_edit_message sid messageId newText now s =
           s\<lparr>messages := Map_set rc ((roomMessages s rc)[i := (roomMessages s rc ! i)
                \<lparr>m_text := newText, m_edited := True, m_editTime := Some now\<rparr>]) (messages s)\<rparr>"
  using assms by (simp add: on_edit_message_def Let_def)

lemma on_delete_message_hit:
  assumes "joined s sid = Some (rc, cu)"
    and "findIndex (\<lambda>msg. m_id msg = messageId) (roomMessages s rc) = Some i"
    and "m_userName (roomMessages s rc ! i) = userName cu"
  shows "on_delete_message sid messageId now s =
           s\<lparr>messages := Map_set rc ((roomMessages s rc)[i := (roomMessages s rc ! i)
                \<lparr>m_deleted := True, m_deletedTime := Some now\<rparr>]) (messages s)\<rparr>"
  using assms by (simp add: on_delete_message_def Let_def)

lemma message_of_changed:
  assumes "findIndex (\<lambda>msg. m_id msg = messageId) (roomMessages s rc) = Some i"
    and "m_id y = messageId"
  shows "message_of (s\<lparr>messages := Map_set rc ((roomMessages s rc)[i := y]) (messages s)\<rparr>)
           rc messageId = Some y"
  using assms by (simp add: message_of_def roomMessages_set find_update_hit)

lemma message_of_frame:
  assumes "findIndex (\<lambda>msg. m_id msg = messageId) (roomMessages s rc) = Some i"
    and "m_id y = messageId"
    and "rc' \<noteq> rc \<or> id' \<noteq> messageId"
  shows "message_of (s\<lparr>messages := Map_set rc ((roomMessages s rc)[i := y]) (messages s)\<rparr>)
           rc' id' = message_of s rc' id'"
proof (cases "rc' = rc")
  case False
  then show ?thesis by (simp add: message_of_def roomMessages_set)
next
  case True
  with assms(3) have ne: "id' \<noteq> messageId" by simp
  from findIndex_Some[OF assms(1)] have i: "i < length (roomMessages s rc)"
    and at: "find (\<lambda>msg. m_id msg = messageId) (roomMessages s rc) = Some (roomMessages s rc ! i)"
    by simp_all
  from at have "m_id (roomMessages s rc ! i) = messageId"
    by (auto simp: find_Some_iff)
  with ne assms(2) i True show ?thesis
    by (simp add: message_of_def roomMessages_set find_update_miss)
qed





section \<open>Facts about room codes, calls, playlists, the monitor and the timers\<close>

lemma pick_code_fresh:
  "pick_code rs draws = Some c \<Longrightarrow> c \<in> set draws \<and> \<not> Map_has rs c"
  by (induction draws) (auto split: if_splits)

lemma pick_code_total:
  "\<exists>c\<in>set draws. \<not> Map_has rs c \<Longrightarrow> \<exists>c. pick_code rs draws = Some c"
  by (induction draws) auto

text \<open>
  The code loop ends, and \<^verbatim>\<open>create-room\<close> completes, as soon as the generator yields
  one code that no room has.
\<close>

lemma on_create_room_completes:
  assumes "\<exists>c\<in>set draws. \<not> Map_has (rooms s) c"
  shows "\<exists>s'. on_create_room sid uname roomName password draws now s = Some s'"
  using pick_code_total[OF assms]
  by (auto simp: on_create_room_def Let_def)

lemma paired_delete_both:
  assumes "paired calls" and "Map_get calls k0 = Some cd"
  shows "paired (Map_delete (targetSocketId cd) (Map_delete (callerSocketId cd) calls))"
proof -
  let ?a = "callerSocketId cd" and ?b = "targetSocketId cd"
  let ?calls' = "Map_delete ?b (Map_delete ?a calls)"
  have get': "Map_get ?calls' k = (if k = ?a \<or> k = ?b then None else Map_get calls k)" for k
    by (simp add: delete_conv')
  have "(k = callerSocketId cd' \<or> k = targetSocketId cd')
          \<and> Map_get ?calls' (callerSocketId cd') = Some cd'
          \<and> Map_get ?calls' (targetSocketId cd') = Some cd'"
    if mem: "(k, cd') \<in> set ?calls'" for k cd'
  proof -
    from mem have in0: "(k, cd') \<in> set calls" and ka: "k \<noteq> ?a" and kb: "k \<noteq> ?b"
      by (auto simp: AList.delete_eq)
    from assms(1) in0 have ends: "k = callerSocketId cd' \<or> k = targetSocketId cd'"
      and ca: "Map_get calls (callerSocketId cd') = Some cd'"
      and cb: "Map_get calls (targetSocketId cd') = Some cd'"
      by (auto simp: paired_def list_all_iff)
    from assms(2) have "(k0, cd) \<in> set calls" by (rule map_of_SomeD)
    with assms(1) have a0: "Map_get calls ?a = Some cd" and b0: "Map_get calls ?b = Some cd"
      by (auto simp: paired_def list_all_iff)
    have ne: "cd' \<noteq> cd" using ends ka kb by auto
    have "callerSocketId cd' \<noteq> ?a" "callerSocketId cd' \<noteq> ?b"
         "targetSocketId cd' \<noteq> ?a" "targetSocketId cd' \<noteq> ?b"
      using ne ca cb a0 b0 by auto
    with ends ca cb show ?thesis by (simp add: get')
  qed
  then show ?thesis
    unfolding paired_def list_all_iff by blast
qed

text \<open>
  Evaluating the double-precision percentage on numerals.  With 23 names of 40 members
  the quotient 0.575 is not a double, the nearest one times 100 is rounded to the
  double just below 57.5, and \<^verbatim>\<open>Math.round\<close> gives 57; 1 of 8 is exactly 12.5 and gives
  13.
\<close>

lemma bit_length_0: "bit_length 0 = 0"
  by (simp add: bit_length.simps)

lemma bit_length_1: "bit_length 1 = 1" "bit_length (Suc 0) = 1"
  by (simp_all add: bit_length.simps)

lemma bit_length_numeral: "bit_length (numeral k) = Suc (bit_length (numeral k div 2))"
  by (subst bit_length.simps) simp

lemmas double_eval = progress_of_def double_div_def round_half_even_def Let_def
  bit_length_0 bit_length_1 bit_length_numeral

lemma double_div_23_40:
  "double_div 23 40 = (5179139571476070, - 53)
   \<and> double_times_100 (double_div 23 40) = (8092405580431359, - 47)"
  by (simp add: double_eval)

lemma progress_of_examples:
  "progress_of 23 40 = Num 57 \<and> progress_of 1 8 = Num 13 \<and> progress_of 1 3 = Num 33
   \<and> progress_of 2 3 = Num 67 \<and> progress_of 201 200 = Num 100 \<and> progress_of 0 5 = Num 0
   \<and> progress_of 2 0 = Infinity \<and> progress_of 0 0 = NaN"
  by (simp add: double_eval)

lemma progress_of_small:
  "progress_of 0 (Suc (Suc 0)) = Num 0"
  "progress_of 0 2 = Num 0"
  "progress_of (Suc 0) (Suc (Suc 0)) = Num 50"
  "progress_of (Suc 0) 2 = Num 50"
  "progress_of 1 2 = Num 50"
  "progress_of (Suc (Suc 0)) (Suc (Suc 0)) = Num 100"
  "progress_of 2 2 = Num 100"
  "progress_of (Suc (Suc (Suc 0))) (Suc (Suc 0)) = Num 150"
  "progress_of 3 (Suc (Suc 0)) = Num 150"
  "progress_of 3 2 = Num 150"
  by (simp_all add: double_eval numeral_2_eq_2[symmetric] numeral_3_eq_3[symmetric])



lemma names_with_tracks_full:
  "names_with_tracks pl = length pl \<Longrightarrow> (name, music) \<in> set pl \<Longrightarrow> music \<noteq> []"
  unfolding names_with_tracks_def
  by (metis (mono_tags, lifting) case_prodD filter_id_conv length_filter_less less_irrefl_nat not_less)

lemma on_disconnect_monitor:
  "Map_has (sockets s) sid \<Longrightarrow>
   connectionMonitor (on_disconnect sid now s) = Map_delete sid (connectionMonitor s)
   \<and> sockets (on_disconnect sid now s) = Map_delete sid (sockets s)"
  by (auto simp: on_disconnect_def Let_def split: option.splits)

lemma check_one_monitor:
  "Map_get (connectionMonitor (check_one now k s)) sid =
     (if k = sid \<and> stale_at now s sid then None else Map_get (connectionMonitor s) sid)"
  by (auto simp: check_one_def stale_at_def Let_def on_disconnect_monitor delete_conv'
           split: option.splits)

lemma check_one_sockets:
  "Map_get (sockets (check_one now k s)) sid =
     (if k = sid \<and> stale_at now s sid then None else Map_get (sockets s) sid)"
  by (auto simp: check_one_def stale_at_def Let_def on_disconnect_monitor delete_conv'
           split: option.splits)

lemma fold_check_one:
  "Map_get (connectionMonitor (fold (check_one now) ks s)) sid =
     (if sid \<in> set ks \<and> stale_at now s sid then None else Map_get (connectionMonitor s) sid)
   \<and> Map_get (sockets (fold (check_one now) ks s)) sid =
     (if sid \<in> set ks \<and> stale_at now s sid then None else Map_get (sockets s) sid)"
proof (induction ks arbitrary: s)
  case Nil
  then show ?case by simp
next
  case (Cons k ks)
  have st: "stale_at now (check_one now k s) sid = (stale_at now s sid \<and> \<not> (k = sid))"
    by (auto simp: stale_at_def check_one_monitor split: option.splits)
  show ?case
    using Cons.IH[of "check_one now k s"]
    by (auto simp: st check_one_monitor check_one_sockets)
qed

lemma drop_grant_users:
  "Map_get rs rc = Some room \<Longrightarrow>
   \<exists>room'. Map_get (drop_grant sid cur rs) rc = Some room' \<and> r_users room' = r_users room"
  by (auto simp: drop_grant_def update_conv' split: option.splits)

text \<open>When exactly one timer is due, the event loop runs exactly its callback.\<close>

lemma run_timers_due:
  assumes "filter (\<lambda>(at, rc). at \<le> now) (timers s) = [(at0, rc0)]"
  shows "run_timers wp now s =
           grace_timeout wp rc0 (s\<lparr>timers := filter (\<lambda>(at, rc). \<not> at \<le> now) (timers s)\<rparr>)"
  using assms by (simp add: run_timers_def)

section \<open>The scenarios, evaluated\<close>

lemmas handler_defs =
  on_connection_def on_create_room_def on_join_room_def monitor_joined_def
  ascii_toUpperCase_def
  joined_def roomMessages_def slice_last_def on_message_def on_edit_message_def
  on_delete_message_def toggle_reaction_def on_message_reaction_def message_of_def
  last_key_def on_request_screen_share_def on_approve_screen_share_def
  on_reject_screen_share_def screen_share_state_def
  on_upload_playlist_music_def on_confirm_delete_music_def resolve_target_def
  on_start_call_def on_reject_call_def on_end_call_def drop_call_def drop_grant_def
  GRACE_def on_disconnect_def grace_timeout_def run_timers_def stamp_def pingInterval_def
  on_pong_def stale_def check_one_def healthCheck_def ONE_HOUR_def swept_def cleanup_def
  Let_def

lemma st_ann_eq:
  "st_ann =
   \<lparr>rooms = [(''AB12CD'',
       \<lparr>r_code = ''AB12CD'', r_name = ''Den'', r_password = None, r_owner = ''a'',
        r_users = [(''a'', \<lparr>u_id = ''a'', userName = ''Ann'', isOwner = True\<rparr>)],
        r_createdAt = 1000, r_screenSharing = None\<rparr>)],
    users = [(''a'', ''AB12CD'', \<lparr>u_id = ''a'', userName = ''Ann'', isOwner = True\<rparr>)],
    messages = [], activeCalls = [], screenShareRequests = [], userPlaylists = [],
    connectionMonitor =
      [(''a'', \<lparr>k_userName = ''Ann'', k_roomCode = Some ''AB12CD'',
                lastPing = Some 0, connectedAt = Some 0\<rparr>)],
    sockets =
      [(''a'', \<lparr>currentUser = Some \<lparr>u_id = ''a'', userName = ''Ann'', isOwner = True\<rparr>,
                currentRoomCode = Some ''AB12CD''\<rparr>)],
    timers = []\<rparr>"
  by (simp add: st_ann_def boot_def handler_defs)

lemma st_ann_bob_eq:
  "st_ann_bob =
   \<lparr>rooms = [(''AB12CD'',
       \<lparr>r_code = ''AB12CD'', r_name = ''Den'', r_password = None, r_owner = ''a'',
        r_users = [(''a'', \<lparr>u_id = ''a'', userName = ''Ann'', isOwner = True\<rparr>),
                   (''b'', \<lparr>u_id = ''b'', userName = ''Bob'', isOwner = False\<rparr>)],
        r_createdAt = 1000, r_screenSharing = None\<rparr>)],
    users = [(''a'', ''AB12CD'', \<lparr>u_id = ''a'', userName = ''Ann'', isOwner = True\<rparr>),
             (''b'', ''AB12CD'', \<lparr>u_id = ''b'', userName = ''Bob'', isOwner = False\<rparr>)],
    messages = [], activeCalls = [], screenShareRequests = [], userPlaylists = [],
    connectionMonitor =
      [(''a'', \<lparr>k_userName = ''Ann'', k_roomCode = Some ''AB12CD'',
                lastPing = Some 0, connectedAt = Some 0\<rparr>),
       (''b'', \<lparr>k_userName = ''Bob'', k_roomCode = Some ''AB12CD'',
                lastPing = Some 2000, connectedAt = Some 2000\<rparr>)],
    sockets =
      [(''a'', \<lparr>currentUser = Some \<lparr>u_id = ''a'', userName = ''Ann'', isOwner = True\<rparr>,
                currentRoomCode = Some ''AB12CD''\<rparr>),
       (''b'', \<lparr>currentUser = Some \<lparr>u_id = ''b'', userName = ''Bob'', isOwner = False\<rparr>,
                currentRoomCode = Some ''AB12CD''\<rparr>)],
    timers = []\<rparr>"
  by (simp add: st_ann_bob_def st_ann_eq handler_defs)

lemma st_trio_eq:
  "st_trio =
   \<lparr>rooms = [(''AB12CD'',
       \<lparr>r_code = ''AB12CD'', r_name = ''Den'', r_password = None, r_owner = ''a'',
        r_users = [(''a'', \<lparr>u_id = ''a'', userName = ''Ann'', isOwner = True\<rparr>),
                   (''b'', \<lparr>u_id = ''b'', userName = ''Bob'', isOwner = False\<rparr>),
                   (''c'', \<lparr>u_id = ''c'', userName = ''Cy'', isOwner = False\<rparr>)],
        r_createdAt = 1000, r_screenSharing = None\<rparr>)],
    users = [(''a'', ''AB12CD'', \<lparr>u_id = ''a'', userName = ''Ann'', isOwner = True\<rparr>),
             (''b'', ''AB12CD'', \<lparr>u_id = ''b'', userName = ''Bob'', isOwner = False\<rparr>),
             (''c'', ''AB12CD'', \<lparr>u_id = ''c'', userName = ''Cy'', isOwner = False\<rparr>)],
    messages = [], activeCalls = [], screenShareRequests = [], userPlaylists = [],
    connectionMonitor =
      [(''a'', \<lparr>k_userName = ''Ann'', k_roomCode = Some ''AB12CD'',
                lastPing = Some 0, connectedAt = Some 0\<rparr>),
       (''b'', \<lparr>k_userName = ''Bob'', k_roomCode = Some ''AB12CD'',
                lastPing = Some 2000, connectedAt = Some 2000\<rparr>),
       (''c'', \<lparr>k_userName = ''Cy'', k_roomCode = Some ''AB12CD'',
                lastPing = Some 3000, connectedAt = Some 3000\<rparr>)],
    sockets =
      [(''a'', \<lparr>currentUser = Some \<lparr>u_id = ''a'', userName = ''Ann'', isOwner = True\<rparr>,
                currentRoomCode = Some ''AB12CD''\<rparr>),
       (''b'', \<lparr>currentUser = Some \<lparr>u_id = ''b'', userName = ''Bob'', isOwner = False\<rparr>,
                currentRoomCode = Some ''AB12CD''\<rparr>),
       (''c'', \<lparr>currentUser = Some \<lparr>u_id = ''c'', userName = ''Cy'', isOwner = False\<rparr>,
                currentRoomCode = Some ''AB12CD''\<rparr>)],
    timers = []\<rparr>"
  by (simp add: st_trio_def st_ann_bob_eq handler_defs)

lemma st_chat_eq:
  "st_chat = st_ann_bob\<lparr>messages :=
      [(''AB12CD'',
        [\<lparr>m_id = ''m1'', m_userName = ''Ann'', m_text = ''hello'',
          m_type = ''text'', m_timestamp = 4000, m_edited = False,
          m_editTime = None, m_deleted = False, m_deletedTime = None,
          m_reactions = [(''Bob'', ''+1'')], m_seenBy = [''Ann'']\<rparr>])]\<rparr>"
  by (simp add: st_chat_def st_ann_bob_eq handler_defs)

section \<open>Chat message store: the claims\<close>

text \<open>
  C10.  A message posted through the \<^verbatim>\<open>message\<close> event is stored last in the room's
  log (after the newest 99 earlier messages), and its seen-set holds exactly one name,
  the author's own; no \<^verbatim>\<open>message-seen\<close> event is involved.
\<close>

theorem posted_message_seen_by_author:
  assumes "joined s sid = Some (rc, cu)"
  shows "roomMessages (on_message sid mtext mtype newId now s) rc =
           slice_last 99 (roomMessages s rc) @
           [\<lparr>m_id = newId, m_userName = userName cu, m_text = mtext,
             m_type = (if mtype = [] then ''text'' else mtype),
             m_timestamp = now, m_edited = False, m_editTime = None,
             m_deleted = False, m_deletedTime = None, m_reactions = [],
             m_seenBy = [userName cu]\<rparr>]"
proof -
  have "slice_last 100 (xs @ [x]) = slice_last 99 xs @ [x]" for xs :: "message list" and x
    using slice_last_snoc[of 99 xs x] by simp
  with roomMessages_on_message[OF assms, of mtext mtype newId now] show ?thesis
    by simp
qed

theorem posted_message_seen_by_author_witness:
  "joined st_ann_bob ''b'' = Some (''AB12CD'', \<lparr>u_id = ''b'', userName = ''Bob'', isOwner = False\<rparr>)
   \<and> map m_seenBy (roomMessages (on_message ''b'' ''hi'' [] ''m7'' 9000 st_ann_bob) ''AB12CD'')
       = [[''Bob'']]"
proof -
  have j: "joined st_ann_bob ''b'' =
             Some (''AB12CD'', \<lparr>u_id = ''b'', userName = ''Bob'', isOwner = False\<rparr>)"
    by (simp add: st_ann_bob_eq joined_def)
  have "roomMessages st_ann_bob ''AB12CD'' = []"
    by (simp add: st_ann_bob_eq roomMessages_def)
  with posted_message_seen_by_author[OF j, of "''hi''" "[]" "''m7''" 9000] j
  show ?thesis by (simp add: slice_last_def)
qed

text \<open>
  C3.  For a caller that has joined a room, and the message an identifier denotes in
  that room's log (the first one carrying it; identifiers are unique in a log):
  \<^verbatim>\<open>edit-message\<close> sets the new text, the edited flag and the edit time, and
  \<^verbatim>\<open>delete-message\<close> sets the deleted flag and the deletion time, when the caller's
  name is the message's author name, and then every other message of every room is as
  before; when the names differ, or no message of the log carries the identifier, the
  whole state is unchanged.
\<close>

theorem edit_delete_only_by_author:
  assumes "joined s sid = Some (rc, cu)"
  shows "case message_of s rc messageId of
           None \<Rightarrow>
             on_edit_message sid messageId newText now s = s \<and>
             on_delete_message sid messageId now s = s
         | Some m \<Rightarrow>
             if m_userName m = userName cu
             then message_of (on_edit_message sid messageId newText now s) rc messageId =
                    Some (m\<lparr>m_text := newText, m_edited := True, m_editTime := Some now\<rparr>) \<and>
                  message_of (on_delete_message sid messageId now s) rc messageId =
                    Some (m\<lparr>m_deleted := True, m_deletedTime := Some now\<rparr>) \<and>
                  (\<forall>rc' id'. rc' \<noteq> rc \<or> id' \<noteq> messageId \<longrightarrow>
                     message_of (on_edit_message sid messageId newText now s) rc' id' =
                       message_of s rc' id' \<and>
                     message_of (on_delete_message sid messageId now s) rc' id' =
                       message_of s rc' id')
             else on_edit_message sid messageId newText now s = s \<and>
                  on_delete_message sid messageId now s = s"
proof (cases "message_of s rc messageId")
  case None
  then have "findIndex (\<lambda>msg. m_id msg = messageId) (roomMessages s rc) = None"
    by (simp add: message_of_def findIndex_None)
  with assms None show ?thesis
    by (simp add: on_edit_message_def on_delete_message_def Let_def)
next
  case (Some m)
  then obtain i where i: "findIndex (\<lambda>msg. m_id msg = messageId) (roomMessages s rc) = Some i"
    and m: "roomMessages s rc ! i = m"
    unfolding message_of_def by (blast dest: find_Some_findIndex)
  from Some have idm: "m_id m = messageId"
    by (auto simp: message_of_def find_Some_iff)
  show ?thesis
  proof (cases "m_userName m = userName cu")
    case False
    with assms i m Some show ?thesis
      by (simp add: on_edit_message_def on_delete_message_def Let_def)
  next
    case True
    with m have au: "m_userName (roomMessages s rc ! i) = userName cu" by simp
    note e = on_edit_message_hit[OF assms i au, of newText now]
    note d = on_delete_message_hit[OF assms i au, of now]
    have "message_of (on_edit_message sid messageId newText now s) rc messageId =
            Some (m\<lparr>m_text := newText, m_edited := True, m_editTime := Some now\<rparr>)"
      unfolding e m using idm by (intro message_of_changed[OF i]) simp
    moreover have "message_of (on_delete_message sid messageId now s) rc messageId =
            Some (m\<lparr>m_deleted := True, m_deletedTime := Some now\<rparr>)"
      unfolding d m using idm by (intro message_of_changed[OF i]) simp
    moreover have "message_of (on_edit_message sid messageId newText now s) rc' id' =
                       message_of s rc' id'" if "rc' \<noteq> rc \<or> id' \<noteq> messageId" for rc' id'
      unfolding e m using idm that by (intro message_of_frame[OF i]) simp_all
    moreover have "message_of (on_delete_message sid messageId now s) rc' id' =
                       message_of s rc' id'" if "rc' \<noteq> rc \<or> id' \<noteq> messageId" for rc' id'
      unfolding d m using idm that by (intro message_of_frame[OF i]) simp_all
    ultimately show ?thesis using Some True by simp
  qed
qed

theorem edit_delete_only_by_author_witness:
  "map_option m_text (message_of (on_edit_message ''a'' ''m1'' ''hello all'' 9000 st_chat) ''AB12CD'' ''m1'')
     = Some ''hello all''
   \<and> map_option m_edited (message_of (on_edit_message ''a'' ''m1'' ''hello all'' 9000 st_chat) ''AB12CD'' ''m1'')
     = Some True
   \<and> map_option m_deleted (message_of (on_delete_message ''a'' ''m1'' 9000 st_chat) ''AB12CD'' ''m1'')
     = Some True
   \<and> on_edit_message ''b'' ''m1'' ''mine now'' 9000 st_chat = st_chat
   \<and> on_delete_message ''b'' ''m1'' 9000 st_chat = st_chat
   \<and> on_edit_message ''a'' ''m9'' ''hello all'' 9000 st_chat = st_chat
   \<and> on_delete_message ''a'' ''m9'' 9000 st_chat = st_chat"
proof -
  have ja: "joined st_chat ''a'' =
              Some (''AB12CD'', \<lparr>u_id = ''a'', userName = ''Ann'', isOwner = True\<rparr>)"
    and jb: "joined st_chat ''b'' =
              Some (''AB12CD'', \<lparr>u_id = ''b'', userName = ''Bob'', isOwner = False\<rparr>)"
    by (simp_all add: st_chat_eq st_ann_bob_eq joined_def)
  have m1: "message_of st_chat ''AB12CD'' ''m1'' =
              Some \<lparr>m_id = ''m1'', m_userName = ''Ann'', m_text = ''hello'',
                    m_type = ''text'', m_timestamp = 4000, m_edited = False,
                    m_editTime = None, m_deleted = False, m_deletedTime = None,
                    m_reactions = [(''Bob'', ''+1'')], m_seenBy = [''Ann'']\<rparr>"
    and m9: "message_of st_chat ''AB12CD'' ''m9'' = None"
    by (simp_all add: st_chat_eq message_of_def roomMessages_def)
  from edit_delete_only_by_author[OF ja, of "''m1''" "''hello all''" 9000]
       edit_delete_only_by_author[OF jb, of "''m1''" "''mine now''" 9000]
       edit_delete_only_by_author[OF ja, of "''m9''" "''hello all''" 9000]
  show ?thesis by (simp add: m1 m9)
qed



text \<open>
  A participant whose display name is \<^verbatim>\<open>__proto__\<close> joins Ann's room and reacts to
  \<open>m1\<close>: the reaction object is as before.
\<close>

lemma proto_name_records_nothing:
  "message_of (on_message_reaction ''p'' (Some (''m1'', ''+1''))
        (on_join_room ascii_toUpperCase ''p'' ''AB12CD'' ''__proto__'' None
           (on_connection ''p'' 5000 st_chat))) ''AB12CD'' ''m1''
     = message_of st_chat ''AB12CD'' ''m1''"
  by (simp add: st_chat_eq st_ann_bob_eq handler_defs)

section \<open>Rooms: the claims\<close>

text \<open>
  C9.  Whenever \<^verbatim>\<open>create-room\<close> completes for a connected socket, the code it assigns
  (the one stored in the creator's \<^verbatim>\<open>currentRoomCode\<close> and in the new room) is one of
  the generator's draws and differs from the code of every room that existed at that
  moment; the new room is appended under that code, so the codes of the existing rooms
  stay pairwise different.
\<close>

theorem created_room_code_unique:
  assumes "on_create_room sid uname roomName password draws now s = Some s'"
    and "Map_has (sockets s) sid"
  shows "\<exists>code room.
           Map_get (sockets s') sid =
             Some \<lparr>currentUser = Some \<lparr>u_id = sid, userName = uname, isOwner = True\<rparr>,
                   currentRoomCode = Some code\<rparr>
         \<and> code \<in> set draws
         \<and> (\<forall>(c, r) \<in> set (rooms s). c \<noteq> code)
         \<and> r_code room = code
         \<and> rooms s' = rooms s @ [(code, room)]"
proof -
  from assms obtain code where pc: "pick_code (rooms s) draws = Some code"
    by (auto simp: on_create_room_def split: option.splits)
  from pick_code_fresh[OF pc] have mem: "code \<in> set draws" and fresh: "map_of (rooms s) code = None"
    by simp_all
  from fresh have notin: "\<forall>(c, r) \<in> set (rooms s). c \<noteq> code"
    by (auto simp: map_of_eq_None_iff image_iff)
  let ?cu = "\<lparr>u_id = sid, userName = uname, isOwner = True\<rparr>"
  let ?room = "\<lparr>r_code = code, r_name = roomName,
                r_password = (if password = Some [] then None else password),
                r_owner = sid, r_users = [(sid, ?cu)], r_createdAt = now,
                r_screenSharing = None\<rparr>"
  from assms pc have s': "s' = s\<lparr>rooms := Map_set code ?room (rooms s),
        users := Map_set sid (code, ?cu) (users s),
        sockets := Map_set sid \<lparr>currentUser = Some ?cu, currentRoomCode = Some code\<rparr> (sockets s),
        connectionMonitor := monitor_joined sid uname code (connectionMonitor s)\<rparr>"
    by (auto simp: on_create_room_def Let_def)
  have j: "Map_get (sockets s') sid = Some \<lparr>currentUser = Some ?cu, currentRoomCode = Some code\<rparr>"
    by (simp add: s' update_conv')
  have r: "rooms s' = rooms s @ [(code, ?room)]"
    by (simp add: s' update_fresh[OF fresh])
  from j mem notin r show ?thesis
    by (intro exI[of _ code] exI[of _ ?room]) simp
qed

theorem created_room_code_unique_witness:
  "map fst (rooms (the (on_create_room ''b'' ''Bob'' ''Attic'' None [''AB12CD'', ''QQ11QQ''] 3000
                         (on_connection ''b'' 2000 st_ann))))
     = [''AB12CD'', ''QQ11QQ'']"
proof -
  let ?s = "on_connection ''b'' 2000 st_ann"
  have c: "Map_has (sockets ?s) ''b''"
    by (simp add: on_connection_def update_conv')
  have "\<exists>c\<in>set [''AB12CD'', ''QQ11QQ'']. \<not> Map_has (rooms ?s) c"
    by (simp add: on_connection_def st_ann_eq)
  from on_create_room_completes[OF this, of "''b''" "''Bob''" "''Attic''" None 3000]
  obtain s' where s': "on_create_room ''b'' ''Bob'' ''Attic'' None [''AB12CD'', ''QQ11QQ''] 3000 ?s = Some s'"
    by blast
  from created_room_code_unique[OF s' c]
  obtain code room where mem: "code \<in> set [''AB12CD'', ''QQ11QQ'']"
    and fresh: "\<forall>(c, r) \<in> set (rooms ?s). c \<noteq> code"
    and r: "rooms s' = rooms ?s @ [(code, room)]" by blast
  from fresh have "code \<noteq> ''AB12CD''" by (simp add: on_connection_def st_ann_eq)
  with mem have "code = ''QQ11QQ''" by simp
  with r s' show ?thesis by (simp add: on_connection_def st_ann_eq)
qed

text \<open>
  C4, as the code has it.  The periodic sweep deletes a room, and its message log,
  exactly when the room has no member at the sweep and was created more than one hour
  before it; a room that has a member is never deleted by the sweep.  (The keys of
  \<^verbatim>\<open>rooms\<close> are distinct, as in every \<^verbatim>\<open>Map\<close>.)
\<close>

theorem backstop_sweep_rule:
  assumes "distinct (map fst (rooms s))"
  shows "Map_get (rooms (cleanup now s)) rc =
           (case Map_get (rooms s) rc of
              None \<Rightarrow> None
            | Some room \<Rightarrow>
                if length (r_users room) = 0 \<and> now - r_createdAt room > 3600000
                then None else Some room)
       \<and> Map_get (messages (cleanup now s)) rc =
           (case Map_get (rooms s) rc of
              None \<Rightarrow> Map_get (messages s) rc
            | Some room \<Rightarrow>
                if length (r_users room) = 0 \<and> now - r_createdAt room > 3600000
                then None else Map_get (messages s) rc)"
proof -
  have sw: "swept now room \<longleftrightarrow> length (r_users room) = 0 \<and> now - r_createdAt room > 3600000"
    for room
    by (simp add: swept_def ONE_HOUR_def)
  have "Map_get (rooms (cleanup now s)) rc =
          (case Map_get (rooms s) rc of None \<Rightarrow> None
           | Some room \<Rightarrow> if \<not> swept now room then Some room else None)"
    by (simp add: cleanup_def map_of_filter_vals[OF assms, where P="\<lambda>room. \<not> swept now room"])
  moreover have "Map_get (messages (cleanup now s)) rc =
          (if \<exists>room. Map_get (rooms s) rc = Some room \<and> swept now room then None
           else Map_get (messages s) rc)"
    unfolding cleanup_def
    by (simp add: map_of_fold_delete filtered_keys[OF assms, where P="swept now", simplified])
  ultimately show ?thesis
    by (auto simp: sw split: option.splits)
qed

lemma st_late_leave_eq:
  "st_late_leave =
   \<lparr>rooms = [(''AB12CD'',
       \<lparr>r_code = ''AB12CD'', r_name = ''Den'', r_password = None, r_owner = ''a'',
        r_users = [], r_createdAt = 1000, r_screenSharing = None\<rparr>)],
    users = [], messages = [], activeCalls = [], screenShareRequests = [],
    userPlaylists = [], connectionMonitor = [], sockets = [],
    timers = [(7740000, ''AB12CD'')]\<rparr>"
  by (simp add: st_late_leave_def st_ann_eq handler_defs)

theorem backstop_sweep_rule_witness:
  "Map_get (rooms (cleanup 3500000 st_late_leave)) ''AB12CD'' = Map_get (rooms st_late_leave) ''AB12CD''
   \<and> Map_get (rooms (cleanup 7200000 st_late_leave)) ''AB12CD'' = None
   \<and> Map_get (rooms (cleanup 7200000 st_ann)) ''AB12CD'' = Map_get (rooms st_ann) ''AB12CD''"
proof -
  have d1: "distinct (map fst (rooms st_late_leave))" by (simp add: st_late_leave_eq)
  have d2: "distinct (map fst (rooms st_ann))" by (simp add: st_ann_eq)
  from backstop_sweep_rule[OF d1, of 3500000 "''AB12CD''"]
       backstop_sweep_rule[OF d1, of 7200000 "''AB12CD''"]
       backstop_sweep_rule[OF d2, of 7200000 "''AB12CD''"]
  show ?thesis by (simp add: st_late_leave_eq st_ann_eq)
qed

text \<open>
  C4 as stated fails: Ann's room is created at 1 s and has a member until she
  disconnects at 119 min; the sweep at 120 min deletes it, one minute after it became
  empty.
\<close>

theorem sweep_deletes_room_empty_for_a_minute:
  "map_option (map fst \<circ> r_users) (Map_get (rooms st_ann) ''AB12CD'') = Some [''a'']
   \<and> st_late_leave = on_disconnect ''a'' 7140000 st_ann
   \<and> (7200000 :: ms) - 7140000 < ONE_HOUR
   \<and> Map_get (rooms (cleanup 7200000 st_late_leave)) ''AB12CD'' = None
   \<and> rooms (cleanup 7200000 st_late_leave) = []"
  by (simp add: st_late_leave_eq st_ann_eq ONE_HOUR_def cleanup_def swept_def)
    (simp add: st_late_leave_def st_ann_eq handler_defs)

text \<open>
  C7, as the code has it.  When a disconnect leaves a room without members, a timer is
  set for 600000 ms later.  When it fires, the room and its chat log are deleted if the
  room has no member at that instant, and nothing changes if it has one (or is gone
  already).
\<close>

theorem grace_timer_rule:
  assumes "joined s sid = Some (rc, cu)"
    and "Map_get (rooms s) rc = Some room"
    and "Map_delete sid (r_users room) = []"
  shows "timers (on_disconnect sid now s) = timers s @ [(now + 600000, rc)]
       \<and> (\<forall>t with_playlists.
            case Map_get (rooms t) rc of
              None \<Rightarrow> grace_timeout with_playlists rc t = t
            | Some r \<Rightarrow>
                if r_users r = []
                then \<not> Map_has (rooms (grace_timeout with_playlists rc t)) rc
                     \<and> \<not> Map_has (messages (grace_timeout with_playlists rc t)) rc
                else grace_timeout with_playlists rc t = t)"
proof -
  from assms(1) obtain se where se: "Map_get (sockets s) sid = Some se"
    by (auto simp: joined_def split: option.splits)
  from drop_grant_users[OF assms(2), of sid "currentRoomCode se"]
  obtain room' where r': "Map_get (drop_grant sid (currentRoomCode se) (rooms s)) rc = Some room'"
    and u': "r_users room' = r_users room" by blast
  have "timers (on_disconnect sid now s) = timers s @ [(now + 600000, rc)]"
    using assms se r' u' by (simp add: on_disconnect_def Let_def GRACE_def)
  moreover have "case Map_get (rooms t) rc of
              None \<Rightarrow> grace_timeout wp rc t = t
            | Some r \<Rightarrow>
                if r_users r = []
                then \<not> Map_has (rooms (grace_timeout wp rc t)) rc
                     \<and> \<not> Map_has (messages (grace_timeout wp rc t)) rc
                else grace_timeout wp rc t = t" for t wp
    by (simp add: grace_timeout_def delete_conv' split: option.splits)
  ultimately show ?thesis by blast
qed

lemma st_left_eq:
  "st_left =
   \<lparr>rooms = [(''AB12CD'',
       \<lparr>r_code = ''AB12CD'', r_name = ''Den'', r_password = None, r_owner = ''a'',
        r_users = [], r_createdAt = 1000, r_screenSharing = None\<rparr>)],
    users = [], messages = [], activeCalls = [], screenShareRequests = [],
    userPlaylists = [], connectionMonitor = [], sockets = [],
    timers = [(605000, ''AB12CD'')]\<rparr>"
  by (simp add: st_left_def st_ann_eq handler_defs)

lemma st_back_eq:
  "st_back =
   \<lparr>rooms = [(''AB12CD'',
       \<lparr>r_code = ''AB12CD'', r_name = ''Den'', r_password = None, r_owner = ''a'',
        r_users = [(''b'', \<lparr>u_id = ''b'', userName = ''Bob'', isOwner = False\<rparr>)],
        r_createdAt = 1000, r_screenSharing = None\<rparr>)],
    users = [(''b'', ''AB12CD'', \<lparr>u_id = ''b'', userName = ''Bob'', isOwner = False\<rparr>)],
    messages =
      [(''AB12CD'',
        [\<lparr>m_id = ''m2'', m_userName = ''Bob'', m_text = ''anyone?'',
          m_type = ''text'', m_timestamp = 110000, m_edited = False,
          m_editTime = None, m_deleted = False, m_deletedTime = None,
          m_reactions = [], m_seenBy = [''Bob'']\<rparr>])],
    activeCalls = [], screenShareRequests = [], userPlaylists = [],
    connectionMonitor =
      [(''b'', \<lparr>k_userName = ''Bob'', k_roomCode = Some ''AB12CD'',
                lastPing = Some 100000, connectedAt = Some 100000\<rparr>)],
    sockets =
      [(''b'', \<lparr>currentUser = Some \<lparr>u_id = ''b'', userName = ''Bob'', isOwner = False\<rparr>,
                currentRoomCode = Some ''AB12CD''\<rparr>)],
    timers = [(605000, ''AB12CD'')]\<rparr>"
  by (simp add: st_back_def st_left_eq handler_defs)

lemma st_gone_eq:
  "st_gone =
   \<lparr>rooms = [(''AB12CD'',
       \<lparr>r_code = ''AB12CD'', r_name = ''Den'', r_password = None, r_owner = ''a'',
        r_users = [], r_createdAt = 1000, r_screenSharing = None\<rparr>)],
    users = [],
    messages =
      [(''AB12CD'',
        [\<lparr>m_id = ''m2'', m_userName = ''Bob'', m_text = ''anyone?'',
          m_type = ''text'', m_timestamp = 110000, m_edited = False,
          m_editTime = None, m_deleted = False, m_deletedTime = None,
          m_reactions = [], m_seenBy = [''Bob'']\<rparr>])],
    activeCalls = [], screenShareRequests = [], userPlaylists = [],
    connectionMonitor = [], sockets = [],
    timers = [(605000, ''AB12CD''), (800000, ''AB12CD'')]\<rparr>"
  by (simp add: st_gone_def st_back_eq handler_defs)

theorem grace_timer_rule_witness:
  "timers st_left = [(605000, ''AB12CD'')]
   \<and> \<not> Map_has (rooms (grace_timeout True ''AB12CD'' st_left)) ''AB12CD''
   \<and> \<not> Map_has (messages (grace_timeout True ''AB12CD'' st_left)) ''AB12CD''
   \<and> grace_timeout True ''AB12CD'' st_back = st_back
   \<and> grace_timeout False ''AB12CD'' st_back = st_back"
proof -
  have j: "joined st_ann ''a'' =
             Some (''AB12CD'', \<lparr>u_id = ''a'', userName = ''Ann'', isOwner = True\<rparr>)"
    by (simp add: st_ann_eq joined_def)
  have r: "Map_get (rooms st_ann) ''AB12CD'' =
      Some \<lparr>r_code = ''AB12CD'', r_name = ''Den'', r_password = None, r_owner = ''a'',
        r_users = [(''a'', \<lparr>u_id = ''a'', userName = ''Ann'', isOwner = True\<rparr>)],
        r_createdAt = 1000, r_screenSharing = None\<rparr>"
    by (simp add: st_ann_eq)
  have e: "Map_delete ''a'' (r_users \<lparr>r_code = ''AB12CD'', r_name = ''Den'', r_password = None,
        r_owner = ''a'',
        r_users = [(''a'', \<lparr>u_id = ''a'', userName = ''Ann'', isOwner = True\<rparr>)],
        r_createdAt = 1000, r_screenSharing = None\<rparr>) = []"
    by simp
  note w = grace_timer_rule[OF j r e, of 5000]
  from w have t: "timers st_left = [(605000, ''AB12CD'')]"
    by (simp add: st_left_def st_ann_eq)
  from w have a: "case Map_get (rooms st_left) ''AB12CD'' of
              None \<Rightarrow> grace_timeout True ''AB12CD'' st_left = st_left
            | Some r \<Rightarrow>
                if r_users r = []
                then \<not> Map_has (rooms (grace_timeout True ''AB12CD'' st_left)) ''AB12CD''
                     \<and> \<not> Map_has (messages (grace_timeout True ''AB12CD'' st_left)) ''AB12CD''
                else grace_timeout True ''AB12CD'' st_left = st_left"
    by blast
  from w have b: "case Map_get (rooms st_back) ''AB12CD'' of
              None \<Rightarrow> grace_timeout wp ''AB12CD'' st_back = st_back
            | Some r \<Rightarrow>
                if r_users r = []
                then \<not> Map_has (rooms (grace_timeout wp ''AB12CD'' st_back)) ''AB12CD''
                     \<and> \<not> Map_has (messages (grace_timeout wp ''AB12CD'' st_back)) ''AB12CD''
                else grace_timeout wp ''AB12CD'' st_back = st_back" for wp
    by blast
  have ra: "Map_get (rooms st_left) ''AB12CD'' =
      Some \<lparr>r_code = ''AB12CD'', r_name = ''Den'', r_password = None, r_owner = ''a'',
        r_users = [], r_createdAt = 1000, r_screenSharing = None\<rparr>"
    by (simp add: st_left_eq)
  have rb: "Map_get (rooms st_back) ''AB12CD'' =
      Some \<lparr>r_code = ''AB12CD'', r_name = ''Den'', r_password = None, r_owner = ''a'',
        r_users = [(''b'', \<lparr>u_id = ''b'', userName = ''Bob'', isOwner = False\<rparr>)],
        r_createdAt = 1000, r_screenSharing = None\<rparr>"
    by (simp add: st_back_eq)
  from a have a': "\<not> Map_has (rooms (grace_timeout True ''AB12CD'' st_left)) ''AB12CD''
                 \<and> \<not> Map_has (messages (grace_timeout True ''AB12CD'' st_left)) ''AB12CD''"
    unfolding ra by simp
  from b[of True] b[of False]
  have b': "grace_timeout True ''AB12CD'' st_back = st_back
          \<and> grace_timeout False ''AB12CD'' st_back = st_back"
    unfolding rb by simp
  from t a' b' show ?thesis by blast
qed

text \<open>
  C7 as stated fails: Ann leaves at 5 s, Bob rejoins at 100 s, within the grace
  period, posts a message and leaves at 200 s.  The first timer fires at 605 s, finds
  the room empty and deletes it with its log, although a participant had rejoined.
\<close>

theorem rejoined_room_deleted_by_first_timer:
  "timers st_left = [(605000, ''AB12CD'')]
   \<and> map_option (map fst \<circ> r_users) (Map_get (rooms st_back) ''AB12CD'') = Some [''b'']
   \<and> map m_id (roomMessages st_back ''AB12CD'') = [''m2'']
   \<and> st_gone = on_disconnect ''b'' 200000 st_back
   \<and> rooms (run_timers True 605000 st_gone) = []
   \<and> messages (run_timers True 605000 st_gone) = []
   \<and> rooms (run_timers False 605000 st_gone) = []
   \<and> messages (run_timers False 605000 st_gone) = []"
  by (simp add: st_left_eq st_back_eq roomMessages_def)
    (simp add: st_gone_def st_back_eq handler_defs)

section \<open>Call index: the claim\<close>

text \<open>
  C2, as the code has it.  When the connection that sends \<^verbatim>\<open>end-call\<close> or
  \<^verbatim>\<open>reject-call\<close> has a call record and the event carries a payload object (whatever
  its fields), the operation removes, in one step, the index entries under the caller's
  and under the callee's identity named by that record; a call index without half-calls
  stays without half-calls, and the sender's own entry is gone.  An event that carries
  no payload object throws in the handler and removes nothing.
\<close>

theorem end_reject_remove_both_entries:
  assumes "Map_has (sockets s) sid"
    and "Map_get (activeCalls s) sid = Some cd"
  shows "activeCalls (on_end_call sid (Some t) s) =
           Map_delete (targetSocketId cd) (Map_delete (callerSocketId cd) (activeCalls s))
       \<and> activeCalls (on_reject_call sid (Some c) s) = activeCalls (on_end_call sid (Some t) s)
       \<and> \<not> Map_has (activeCalls (on_end_call sid (Some t) s)) (callerSocketId cd)
       \<and> \<not> Map_has (activeCalls (on_end_call sid (Some t) s)) (targetSocketId cd)
       \<and> (if paired (activeCalls s)
          then paired (activeCalls (on_end_call sid (Some t) s))
               \<and> \<not> Map_has (activeCalls (on_end_call sid (Some t) s)) sid
          else True)
       \<and> on_end_call sid None s = s
       \<and> on_reject_call sid None s = s"
proof -
  have e: "activeCalls (on_end_call sid (Some t) s) =
           Map_delete (targetSocketId cd) (Map_delete (callerSocketId cd) (activeCalls s))"
    using assms by (simp add: on_end_call_def)
  have r: "activeCalls (on_reject_call sid (Some c) s) = activeCalls (on_end_call sid (Some t) s)"
    using assms by (simp add: on_end_call_def on_reject_call_def)
  have gone: "\<not> Map_has (activeCalls (on_end_call sid (Some t) s)) (callerSocketId cd)"
       "\<not> Map_has (activeCalls (on_end_call sid (Some t) s)) (targetSocketId cd)"
    by (simp_all add: e delete_conv')
  have inv: "paired (activeCalls (on_end_call sid (Some t) s))
             \<and> \<not> Map_has (activeCalls (on_end_call sid (Some t) s)) sid"
    if p: "paired (activeCalls s)"
  proof -
    from assms(2) have "(sid, cd) \<in> set (activeCalls s)" by (rule map_of_SomeD)
    with p have "sid = callerSocketId cd \<or> sid = targetSocketId cd"
      by (auto simp: paired_def list_all_iff)
    then have "\<not> Map_has (activeCalls (on_end_call sid (Some t) s)) sid"
      using gone by auto
    with paired_delete_both[OF p assms(2)] show ?thesis by (simp add: e)
  qed
  have none: "on_end_call sid None s = s" "on_reject_call sid None s = s"
    by (simp_all add: on_end_call_def on_reject_call_def)
  from e r gone inv none show ?thesis by simp
qed

lemma st_ringing_calls:
  "activeCalls st_ringing =
     [(''a'', \<lparr>callerSocketId = ''a'', callerName = ''Ann'', targetSocketId = ''b'',
               targetUserName = ''Bob'', c_type = ''video'', c_roomCode = Some ''AB12CD'',
               c_startTime = 5000, c_status = ''ringing''\<rparr>),
      (''b'', \<lparr>callerSocketId = ''a'', callerName = ''Ann'', targetSocketId = ''b'',
               targetUserName = ''Bob'', c_type = ''video'', c_roomCode = Some ''AB12CD'',
               c_startTime = 5000, c_status = ''ringing''\<rparr>)]
   \<and> sockets st_ringing = sockets st_trio \<and> users st_ringing = users st_trio"
  by (simp add: st_ringing_def st_trio_eq handler_defs)

lemma st_overlap_calls:
  "activeCalls st_overlap =
     [(''a'', \<lparr>callerSocketId = ''a'', callerName = ''Ann'', targetSocketId = ''b'',
               targetUserName = ''Bob'', c_type = ''video'', c_roomCode = Some ''AB12CD'',
               c_startTime = 5000, c_status = ''ringing''\<rparr>),
      (''b'', \<lparr>callerSocketId = ''c'', callerName = ''Cy'', targetSocketId = ''b'',
               targetUserName = ''Bob'', c_type = ''audio'', c_roomCode = Some ''AB12CD'',
               c_startTime = 6000, c_status = ''ringing''\<rparr>),
      (''c'', \<lparr>callerSocketId = ''c'', callerName = ''Cy'', targetSocketId = ''b'',
               targetUserName = ''Bob'', c_type = ''audio'', c_roomCode = Some ''AB12CD'',
               c_startTime = 6000, c_status = ''ringing''\<rparr>)]
   \<and> sockets st_overlap = sockets st_trio"
  by (simp add: st_overlap_def st_ringing_calls st_trio_eq on_start_call_def resolve_target_def
        last_key_def Let_def)

theorem end_reject_remove_both_entries_witness:
  "paired (activeCalls st_ringing)
   \<and> activeCalls (on_end_call ''b'' (Some None) st_ringing) = []
   \<and> activeCalls (on_reject_call ''b'' (Some (Some ''a'')) st_ringing) = []
   \<and> paired (activeCalls (on_end_call ''b'' (Some None) st_ringing))
   \<and> on_end_call ''b'' None st_ringing = st_ringing
   \<and> on_reject_call ''b'' None st_ringing = st_ringing"
proof -
  have c: "Map_has (sockets st_ringing) ''b''"
    by (simp add: st_ringing_calls st_trio_eq)
  have g: "Map_get (activeCalls st_ringing) ''b'' =
      Some \<lparr>callerSocketId = ''a'', callerName = ''Ann'', targetSocketId = ''b'',
               targetUserName = ''Bob'', c_type = ''video'', c_roomCode = Some ''AB12CD'',
               c_startTime = 5000, c_status = ''ringing''\<rparr>"
    by (simp add: st_ringing_calls)
  have p: "paired (activeCalls st_ringing)"
    by (simp add: st_ringing_calls paired_def)
  note w = end_reject_remove_both_entries[OF c g, where t=None and c="Some ''a''"]
  from w have e: "activeCalls (on_end_call ''b'' (Some None) st_ringing) = []"
    by (simp add: st_ringing_calls)
  from w e have r: "activeCalls (on_reject_call ''b'' (Some (Some ''a'')) st_ringing) = []"
    by simp
  from w p have q: "paired (activeCalls (on_end_call ''b'' (Some None) st_ringing))"
    by (elim conjE) (simp only: if_True)
  from w have n: "on_end_call ''b'' None st_ringing = st_ringing
                  \<and> on_reject_call ''b'' None st_ringing = st_ringing"
    by (elim conjE) (simp only: simp_thms)
  from p e r q n show ?thesis by simp
qed

text \<open>
  C2 as stated fails.  \<^verbatim>\<open>start-call\<close> overwrites whatever the two keys held: after
  Ann and then Cy ring Bob, Ann's key still holds her call while Bob's holds Cy's, and
  when Bob ends or rejects, Ann's entry stays behind.  And from the index with the one
  call between Ann and Bob, an \<^verbatim>\<open>end-call\<close> from Cy, who has no record, naming Bob,
  deletes Bob's entry and leaves Ann's.
\<close>

theorem overlapping_calls_leave_half_call:
  "\<not> paired (activeCalls st_overlap)
   \<and> map fst (activeCalls (on_end_call ''b'' (Some None) st_overlap)) = [''a'']
   \<and> map fst (activeCalls (on_reject_call ''b'' (Some (Some ''c'')) st_overlap)) = [''a'']
   \<and> \<not> paired (activeCalls (on_end_call ''b'' (Some None) st_overlap))
   \<and> paired (activeCalls st_ringing)
   \<and> map fst (activeCalls (on_end_call ''c'' (Some (Some ''b'')) st_ringing)) = [''a'']
   \<and> \<not> paired (activeCalls (on_end_call ''c'' (Some (Some ''b'')) st_ringing))"
  by (simp add: st_overlap_calls st_ringing_calls st_trio_eq paired_def on_end_call_def
        on_reject_call_def)

section \<open>Screen sharing: the claim\<close>

text \<open>
  C6, as the code has it.  \<^verbatim>\<open>approve-screen-share\<close> and \<^verbatim>\<open>reject-screen-share\<close>
  change nothing when the caller has not joined a room, when the caller's own
  participant record does not carry the owner flag, or when the named requester has no
  pending request.  From a caller with the owner flag, reject consumes the request, and
  approve consumes it and installs the grant on the caller's current room (it changes
  nothing when no room is stored under the caller's room code).
\<close>

theorem screen_share_owner_flag_gate:
  "(case joined s sid of
      None \<Rightarrow> on_approve_screen_share sid requester now s = s
              \<and> on_reject_screen_share sid requester s = s
    | Some (rc, cu) \<Rightarrow>
        if isOwner cu
        then (case Map_get (screenShareRequests s) requester of
                None \<Rightarrow> on_approve_screen_share sid requester now s = s
                        \<and> on_reject_screen_share sid requester s = s
              | Some request \<Rightarrow>
                  on_reject_screen_share sid requester s =
                    s\<lparr>screenShareRequests := Map_delete requester (screenShareRequests s)\<rparr>
                  \<and> (case Map_get (rooms s) rc of
                       None \<Rightarrow> on_approve_screen_share sid requester now s = s
                     | Some room \<Rightarrow>
                         on_approve_screen_share sid requester now s =
                           s\<lparr>rooms := Map_set rc (room\<lparr>r_screenSharing :=
                                  Some \<lparr>g_userName = requesterName request,
                                        g_socketId = requester, g_startedAt = now\<rparr>\<rparr>) (rooms s),
                             screenShareRequests :=
                               Map_delete requester (screenShareRequests s)\<rparr>))
        else on_approve_screen_share sid requester now s = s
             \<and> on_reject_screen_share sid requester s = s)"
  by (simp add: on_approve_screen_share_def on_reject_screen_share_def
           split: option.splits prod.splits)

lemma st_asked_eq:
  "st_asked =
   \<lparr>rooms =
      [(''AB12CD'',
        \<lparr>r_code = ''AB12CD'', r_name = ''Den'', r_password = None, r_owner = ''a'',
         r_users = [(''a'', \<lparr>u_id = ''a'', userName = ''Ann'', isOwner = True\<rparr>)],
         r_createdAt = 1000, r_screenSharing = None\<rparr>),
       (''ZZ99ZZ'',
        \<lparr>r_code = ''ZZ99ZZ'', r_name = ''Loft'', r_password = None, r_owner = ''c'',
         r_users = [(''c'', \<lparr>u_id = ''c'', userName = ''Cy'', isOwner = True\<rparr>),
                    (''b'', \<lparr>u_id = ''b'', userName = ''Bob'', isOwner = False\<rparr>)],
         r_createdAt = 3000, r_screenSharing = None\<rparr>)],
    users =
      [(''a'', ''AB12CD'', \<lparr>u_id = ''a'', userName = ''Ann'', isOwner = True\<rparr>),
       (''c'', ''ZZ99ZZ'', \<lparr>u_id = ''c'', userName = ''Cy'', isOwner = True\<rparr>),
       (''b'', ''ZZ99ZZ'', \<lparr>u_id = ''b'', userName = ''Bob'', isOwner = False\<rparr>)],
    messages = [], activeCalls = [],
    screenShareRequests =
      [(''b'', \<lparr>requesterName = ''Bob'', requesterSocketId = ''b'',
                q_roomCode = ''ZZ99ZZ'', q_timestamp = 5000\<rparr>)],
    userPlaylists = [],
    connectionMonitor =
      [(''a'', \<lparr>k_userName = ''Ann'', k_roomCode = Some ''AB12CD'',
                lastPing = Some 0, connectedAt = Some 0\<rparr>),
       (''c'', \<lparr>k_userName = ''Cy'', k_roomCode = Some ''ZZ99ZZ'',
                lastPing = Some 2000, connectedAt = Some 2000\<rparr>),
       (''b'', \<lparr>k_userName = ''Bob'', k_roomCode = Some ''ZZ99ZZ'',
                lastPing = Some 4000, connectedAt = Some 4000\<rparr>)],
    sockets =
      [(''a'', \<lparr>currentUser = Some \<lparr>u_id = ''a'', userName = ''Ann'', isOwner = True\<rparr>,
                currentRoomCode = Some ''AB12CD''\<rparr>),
       (''c'', \<lparr>currentUser = Some \<lparr>u_id = ''c'', userName = ''Cy'', isOwner = True\<rparr>,
                currentRoomCode = Some ''ZZ99ZZ''\<rparr>),
       (''b'', \<lparr>currentUser = Some \<lparr>u_id = ''b'', userName = ''Bob'', isOwner = False\<rparr>,
                currentRoomCode = Some ''ZZ99ZZ''\<rparr>)],
    timers = []\<rparr>"
  by (simp add: st_asked_def st_two_rooms_def st_ann_eq handler_defs)

theorem screen_share_owner_flag_gate_witness:
  "screen_share_state (on_approve_screen_share ''c'' ''b'' 9000 st_asked) =
     ([], [(''AB12CD'', None),
           (''ZZ99ZZ'', Some \<lparr>g_userName = ''Bob'', g_socketId = ''b'', g_startedAt = 9000\<rparr>)])
   \<and> screen_share_state (on_reject_screen_share ''c'' ''b'' st_asked) =
     ([], [(''AB12CD'', None), (''ZZ99ZZ'', None)])
   \<and> on_approve_screen_share ''b'' ''b'' 9000 st_asked = st_asked
   \<and> on_reject_screen_share ''b'' ''b'' st_asked = st_asked
   \<and> on_approve_screen_share ''c'' ''a'' 9000 st_asked = st_asked"
proof -
  have jc: "joined st_asked ''c'' =
              Some (''ZZ99ZZ'', \<lparr>u_id = ''c'', userName = ''Cy'', isOwner = True\<rparr>)"
    and jb: "joined st_asked ''b'' =
              Some (''ZZ99ZZ'', \<lparr>u_id = ''b'', userName = ''Bob'', isOwner = False\<rparr>)"
    by (simp_all add: st_asked_eq joined_def)
  from screen_share_owner_flag_gate[where s=st_asked and sid="''c''" and requester="''b''" and now=9000]
       screen_share_owner_flag_gate[where s=st_asked and sid="''b''" and requester="''b''" and now=9000]
       screen_share_owner_flag_gate[where s=st_asked and sid="''c''" and requester="''a''" and now=9000]
  show ?thesis
    unfolding jc jb by (simp add: st_asked_eq screen_share_state_def)
qed

text \<open>
  C6 as stated fails: Bob's request was made in Cy's room \<open>ZZ99ZZ\<close>.  Ann owns the
  other room; her approve consumes Bob's request and installs the grant on her room
  \<open>AB12CD\<close>, and her reject consumes the request as well.
\<close>

theorem other_rooms_owner_consumes_request:
  "map_option r_owner (Map_get (rooms st_asked) ''ZZ99ZZ'') = Some ''c''
   \<and> map_option q_roomCode (Map_get (screenShareRequests st_asked) ''b'') = Some ''ZZ99ZZ''
   \<and> joined st_asked ''a'' = Some (''AB12CD'', \<lparr>u_id = ''a'', userName = ''Ann'', isOwner = True\<rparr>)
   \<and> screen_share_state st_asked =
       ([(''b'', \<lparr>requesterName = ''Bob'', requesterSocketId = ''b'',
                  q_roomCode = ''ZZ99ZZ'', q_timestamp = 5000\<rparr>)],
        [(''AB12CD'', None), (''ZZ99ZZ'', None)])
   \<and> screen_share_state (on_approve_screen_share ''a'' ''b'' 9000 st_asked) =
       ([], [(''AB12CD'', Some \<lparr>g_userName = ''Bob'', g_socketId = ''b'', g_startedAt = 9000\<rparr>),
             (''ZZ99ZZ'', None)])
   \<and> screen_share_state (on_reject_screen_share ''a'' ''b'' st_asked) =
       ([], [(''AB12CD'', None), (''ZZ99ZZ'', None)])"
  by (simp add: st_asked_eq joined_def screen_share_state_def on_approve_screen_share_def
        on_reject_screen_share_def)

section \<open>Playlists: the claim\<close>



lemma st_bob_cleared_eq:
  "st_bob_cleared = st_ann_bob\<lparr>userPlaylists :=
      [(''AB12CD'',
        [(''Ann'', [\<lparr>t_id = ''t1'', t_url = ''data1'', t_fileName = ''one.mp3'',
                     t_fileSize = 10, t_uploader = ''Ann'', t_uploadTime = 4000\<rparr>]),
         (''Bob'', [])])]\<rparr>"
  by (simp add: st_bob_cleared_def st_ann_bob_eq handler_defs)



text \<open>
  The upload handler counts every name of the playlist, also one whose list a
  \<^verbatim>\<open>confirm-delete-music\<close> has emptied: after Bob cleared his list, Ann's next upload
  reports 100 percent with one name holding tracks among two members.
\<close>

lemma upload_counts_emptied_lists:
  "map_option uploadProgress
     (snd (on_upload_playlist_music ''a'' (Some (''data3'', ''three.mp3'', 30)) ''t3'' 7000
             st_bob_cleared))
     = Some (Num 100)
   \<and> names_with_tracks
        (roomPlaylist (fst (on_upload_playlist_music ''a'' (Some (''data3'', ''three.mp3'', 30))
                              ''t3'' 7000 st_bob_cleared)) ''AB12CD'') = 1
   \<and> progress_of 1 2 = Num 50"
  by (simp add: st_bob_cleared_eq st_ann_bob_eq roomPlaylist_def on_upload_playlist_music_def
        joined_def Let_def progress_of_small names_with_tracks_def)

text \<open>
  The rounding is that of the double the code computes, not of the exact quotient: with
  23 names holding tracks among 40 members the exact percentage is 57.5, the double
  product is just below it, and the broadcast carries 57.
\<close>

lemma progress_is_rounded_double:
  "double_div 23 40 = (5179139571476070, - 53)
   \<and> double_times_100 (double_div 23 40) = (8092405580431359, - 47)
   \<and> progress_of 23 40 = Num 57"
  by (simp add: double_eval)

section \<open>Liveness monitor: the claim\<close>

text \<open>
  What one sweep does to a heartbeat record: a record stamped more than 40000 ms before
  the sweep is removed and its socket disconnected, any other record and its socket are
  kept.  Both the client's acknowledgment and the connection's own 10-second interval
  stamp the record of a connected socket.
\<close>

lemma healthCheck_rule:
  assumes "Map_get (connectionMonitor s) sid = Some conn"
  shows "(case lastPing conn of
            None \<Rightarrow> Map_get (connectionMonitor (healthCheck now s)) sid = Some conn
          | Some t \<Rightarrow>
              if now - t > 40000
              then \<not> Map_has (connectionMonitor (healthCheck now s)) sid
                   \<and> \<not> Map_has (sockets (healthCheck now s)) sid
              else Map_get (connectionMonitor (healthCheck now s)) sid = Some conn
                   \<and> Map_get (sockets (healthCheck now s)) sid = Map_get (sockets s) sid)
       \<and> (if Map_has (sockets s) sid
          then Map_get (connectionMonitor (on_pong sid now s)) sid = Some (conn\<lparr>lastPing := Some now\<rparr>)
               \<and> Map_get (connectionMonitor (pingInterval sid now s)) sid = Some (conn\<lparr>lastPing := Some now\<rparr>)
          else on_pong sid now s = s \<and> pingInterval sid now s = s)"
proof -
  from assms have mem: "sid \<in> set (map fst (connectionMonitor s))"
    using map_of_SomeD[OF assms] by (force simp: image_iff)
  have st: "stale_at now s sid = (case lastPing conn of None \<Rightarrow> False | Some t \<Rightarrow> now - t > 40000)"
    using assms by (simp add: stale_at_def stale_def)
  have sweep: "case lastPing conn of
            None \<Rightarrow> Map_get (connectionMonitor (healthCheck now s)) sid = Some conn
          | Some t \<Rightarrow>
              if now - t > 40000
              then \<not> Map_has (connectionMonitor (healthCheck now s)) sid
                   \<and> \<not> Map_has (sockets (healthCheck now s)) sid
              else Map_get (connectionMonitor (healthCheck now s)) sid = Some conn
                   \<and> Map_get (sockets (healthCheck now s)) sid = Map_get (sockets s) sid"
    using fold_check_one[of now "map fst (connectionMonitor s)" s sid] mem assms
    unfolding healthCheck_def st
    by (auto split: option.splits)
  have refresh: "Map_get (stamp sid now (connectionMonitor s)) sid = Some (conn\<lparr>lastPing := Some now\<rparr>)"
    using assms by (simp add: stamp_def update_conv')
  from sweep refresh show ?thesis
    by (simp add: on_pong_def pingInterval_def)
qed

lemma st_silent_eq:
  "st_silent =
   \<lparr>rooms = [], users = [], messages = [], activeCalls = [],
    screenShareRequests = [], userPlaylists = [],
    connectionMonitor =
      [(''a'', \<lparr>k_userName = ''Anonymous'', k_roomCode = None,
                lastPing = Some 55000, connectedAt = Some 5000\<rparr>)],
    sockets = [(''a'', \<lparr>currentUser = None, currentRoomCode = None\<rparr>)],
    timers = []\<rparr>"
  by (simp add: st_silent_def boot_def handler_defs)

text \<open>
  C1.  The claim: a connection whose record no client acknowledgment has refreshed for
  more than 40 s is disconnected, and its record removed, by the next sweep.  The code
  at a client that connects at 5 s and never acknowledges: the connection's own interval
  has stamped the record at 55 s, so the sweep at 60 s, 55 s after the last (and only)
  sign of life from the client, finds the record 5 s old and keeps the record and the
  connection.
\<close>

theorem unacknowledged_connection_survives:
  "map_option lastPing (Map_get (connectionMonitor st_silent) ''a'') = Some (Some 55000)
   \<and> map_option connectedAt (Map_get (connectionMonitor st_silent) ''a'') = Some (Some 5000)
   \<and> healthCheck 60000 st_silent = st_silent
   \<and> Map_has (connectionMonitor (healthCheck 60000 st_silent)) ''a''
   \<and> Map_has (sockets (healthCheck 60000 st_silent)) ''a''"
  by (simp add: st_silent_eq healthCheck_def check_one_def stale_def)

end
